theory Spec2Isabelle
  imports Complex_Main "HOL-Library.Sublist" "HOL-Library.Monad_Syntax"
begin

section \<open>JavaScript values\<close>

text \<open>
  A JavaScript \<^verbatim>\<open>number\<close> is an IEEE double. The code only compares numbers and
  tests them for truthiness, so a finite double is modelled by the real number it
  denotes (both zeros are \<open>Finite 0\<close>), next to the three special values.
\<close>

datatype number = Finite real | NaN | PosInfinity | NegInfinity

text \<open>The relational operators \<^verbatim>\<open><\<close> and \<^verbatim>\<open><=\<close>: false whenever an operand is NaN.\<close>

fun num_lt :: "number \<Rightarrow> number \<Rightarrow> bool" where
  "num_lt NaN b = False"
| "num_lt a NaN = False"
| "num_lt (Finite x) (Finite y) = (x < y)"
| "num_lt (Finite x) PosInfinity = True"
| "num_lt (Finite x) NegInfinity = False"
| "num_lt PosInfinity b = False"
| "num_lt NegInfinity NegInfinity = False"
| "num_lt NegInfinity b = True"

fun num_le :: "number \<Rightarrow> number \<Rightarrow> bool" where
  "num_le NaN b = False"
| "num_le a NaN = False"
| "num_le a b = (\<not> num_lt b a)"

text \<open>ToBoolean on a number and on a string.\<close>

fun truthy_number :: "number \<Rightarrow> bool" where
  "truthy_number NaN = False"
| "truthy_number (Finite x) = (x \<noteq> 0)"
| "truthy_number PosInfinity = True"
| "truthy_number NegInfinity = True"

definition truthy_string :: "string \<Rightarrow> bool" where
  "truthy_string s = (s \<noteq> [])"

text \<open>
  Untyped values (\<^verbatim>\<open>unknown\<close>, \<^verbatim>\<open>Record<string, unknown>\<close>): what a parsed JSON
  document can hold, and \<^verbatim>\<open>undefined\<close>. An object is the list of its properties in
  insertion order, with distinct keys; a property is read with \<open>map_of\<close>.
\<close>

datatype jsvalue =
    JUndefined
  | JNull
  | JBool bool
  | JNumber number
  | JString string
  | JArray "jsvalue list"
  | JObject "(string \<times> jsvalue) list"

type_synonym jsobject = "(string \<times> jsvalue) list"

text \<open>Property access \<^verbatim>\<open>obj.key\<close>: \<^verbatim>\<open>undefined\<close> when the object has no such property.\<close>

definition getProp :: "jsobject \<Rightarrow> string \<Rightarrow> jsvalue" where
  "getProp obj k = (case map_of obj k of None \<Rightarrow> JUndefined | Some v \<Rightarrow> v)"

text \<open>The nullish test behind \<^verbatim>\<open>a ?? b\<close>.\<close>

definition nullish :: "jsvalue \<Rightarrow> bool" where
  "nullish v = (v = JUndefined \<or> v = JNull)"

definition coalesce :: "jsvalue \<Rightarrow> jsvalue \<Rightarrow> jsvalue" where
  "coalesce v d = (if nullish v then d else v)"

text \<open>A \<^verbatim>\<open>Date\<close> object is its time value (milliseconds since the epoch) or invalid.\<close>

datatype Date = TimeValue int | InvalidDate

section \<open>Built-ins of the platform\<close>

text \<open>
  The code calls built-ins of the JavaScript runtime whose algorithms are not part of
  the repository. The ones below are parameters of the model; every theorem holds for
  all of them unless it states an assumption about one.
  \<^item> \<open>Number_toString\<close>: Number::toString, used by \<^verbatim>\<open>String(n)\<close> and template literals;
  \<^item> \<open>StringToNumber\<close>: the conversion behind \<^verbatim>\<open>Number(s)\<close>;
  \<^item> \<open>parseInt10\<close>: \<^verbatim>\<open>parseInt(s, 10)\<close>;
  \<^item> \<open>Date_construct\<close>: \<^verbatim>\<open>new Date(v)\<close> for a primitive value \<open>v\<close>;
  \<^item> \<open>Date_toISOString\<close>: \<^verbatim>\<open>toISOString()\<close> of a valid time value;
  \<^item> \<open>URL_rest_ok\<close>: whether the URL parser accepts what follows \<^verbatim>\<open>scheme:\<close>
    (authority, host, port) for the given scheme.
\<close>

record platform =
  Number_toString :: "number \<Rightarrow> string"
  StringToNumber :: "string \<Rightarrow> number"
  parseInt10 :: "string \<Rightarrow> number"
  Date_construct :: "jsvalue \<Rightarrow> Date"
  Date_toISOString :: "int \<Rightarrow> string"
  URL_rest_ok :: "string \<Rightarrow> string \<Rightarrow> bool"

text \<open>
  A valid date whose ISO form the platform parses back to the same time value. The
  language standard requires this of every valid date: \<^verbatim>\<open>Date.parse(x.toISOString())\<close>
  is \<^verbatim>\<open>x.valueOf()\<close>.
\<close>

definition parsesBack :: "platform \<Rightarrow> Date \<Rightarrow> bool" where
  "parsesBack P d =
     (case d of
        InvalidDate \<Rightarrow> False
      | TimeValue t \<Rightarrow>
          Date_toISOString P t \<noteq> []
          \<and> Date_construct P (JString (Date_toISOString P t)) = TimeValue t)"

text \<open>\<^verbatim>\<open>Array.prototype.join\<close> on strings.\<close>

fun joinWith :: "string \<Rightarrow> string list \<Rightarrow> string" where
  "joinWith sep [] = []"
| "joinWith sep [x] = x"
| "joinWith sep (x # y # ys) = x @ sep @ joinWith sep (y # ys)"

text \<open>
  \<^verbatim>\<open>String(v)\<close> and \<^verbatim>\<open>Number(v)\<close> on an untyped value; \<open>None\<close> is the TypeError
  they throw when an object cannot be converted to a primitive. An object parsed from
  JSON has no callable property of its own, so an own property \<^verbatim>\<open>toString\<close> hides
  \<^verbatim>\<open>Object.prototype.toString\<close>, and the inherited \<^verbatim>\<open>valueOf\<close> returns the object
  itself: the conversion throws. Without that property the object converts to
  \<^verbatim>\<open>[object Object]\<close>. An array converts by \<^verbatim>\<open>join\<close>, which converts each element
  that is not null or undefined.
\<close>

fun ToString :: "platform \<Rightarrow> jsvalue \<Rightarrow> string option" where
  "ToString P JUndefined = Some ''undefined''"
| "ToString P JNull = Some ''null''"
| "ToString P (JBool b) = Some (if b then ''true'' else ''false'')"
| "ToString P (JNumber n) = Some (Number_toString P n)"
| "ToString P (JString s) = Some s"
| "ToString P (JArray xs) =
     map_option (joinWith '','')
       (those (map (\<lambda>x. if nullish x then Some [] else ToString P x) xs))"
| "ToString P (JObject kvs) =
     (if map_of kvs ''toString'' \<noteq> None then None else Some ''[object Object]'')"

fun ToNumber :: "platform \<Rightarrow> jsvalue \<Rightarrow> number option" where
  "ToNumber P JUndefined = Some NaN"
| "ToNumber P JNull = Some (Finite 0)"
| "ToNumber P (JBool b) = Some (if b then Finite 1 else Finite 0)"
| "ToNumber P (JNumber n) = Some n"
| "ToNumber P (JString s) = Some (StringToNumber P s)"
| "ToNumber P (JArray xs) = map_option (StringToNumber P) (ToString P (JArray xs))"
| "ToNumber P (JObject kvs) = map_option (StringToNumber P) (ToString P (JObject kvs))"

text \<open>
  ToPrimitive, and \<^verbatim>\<open>new Date(v)\<close> on an untyped value: the argument is converted to
  a primitive first, which throws the same TypeError.
\<close>

fun ToPrimitive :: "platform \<Rightarrow> jsvalue \<Rightarrow> jsvalue option" where
  "ToPrimitive P (JArray xs) = map_option JString (ToString P (JArray xs))"
| "ToPrimitive P (JObject kvs) = map_option JString (ToString P (JObject kvs))"
| "ToPrimitive P v = Some v"

definition Date_new :: "platform \<Rightarrow> jsvalue \<Rightarrow> Date option" where
  "Date_new P v = map_option (Date_construct P) (ToPrimitive P v)"

text \<open>\<^verbatim>\<open>Boolean(v)\<close> never throws.\<close>

fun ToBoolean :: "jsvalue \<Rightarrow> bool" where
  "ToBoolean JUndefined = False"
| "ToBoolean JNull = False"
| "ToBoolean (JBool b) = b"
| "ToBoolean (JNumber n) = truthy_number n"
| "ToBoolean (JString s) = truthy_string s"
| "ToBoolean (JArray xs) = True"
| "ToBoolean (JObject kvs) = True"

subsection \<open>Characters and strings\<close>

text \<open>
  Strings are lists of 8-bit characters. Every test the code makes on the characters
  of a string (the phone pattern, the URL scheme) looks at ASCII characters only.
\<close>

definition isAsciiDigit :: "char \<Rightarrow> bool" where
  "isAsciiDigit c = (c \<in> set ''0123456789'')"

definition isAsciiAlpha :: "char \<Rightarrow> bool" where
  "isAsciiAlpha c =
     (c \<in> set ''abcdefghijklmnopqrstuvwxyzABCDEFGHIJKLMNOPQRSTUVWXYZ'')"

definition asciiLower :: "char \<Rightarrow> char" where
  "asciiLower c =
     (case map_of (zip ''ABCDEFGHIJKLMNOPQRSTUVWXYZ'' ''abcdefghijklmnopqrstuvwxyz'') c of
        None \<Rightarrow> c | Some l \<Rightarrow> l)"

text \<open>\<^verbatim>\<open>String.prototype.includes\<close>: the needle occurs as a contiguous substring.\<close>

fun includes_str :: "string \<Rightarrow> string \<Rightarrow> bool" where
  "includes_str [] needle = (needle = [])"
| "includes_str (c # cs) needle = (prefix needle (c # cs) \<or> includes_str cs needle)"

subsection \<open>The URL constructor\<close>

text \<open>
  \<^verbatim>\<open>new URL(s)\<close> without a base, after the URL standard's basic parser: leading and
  trailing C0 controls and spaces are stripped, tabs and newlines removed; the scheme
  is an ASCII letter followed by letters, digits, \<^verbatim>\<open>+\<close>, \<^verbatim>\<open>-\<close>, \<^verbatim>\<open>.\<close> up to the first
  \<^verbatim>\<open>:\<close>, lowercased; an input with no scheme is a failure (a TypeError). Whether the
  rest parses is the platform's \<open>URL_rest_ok\<close>. The result is the URL's scheme, from
  which \<^verbatim>\<open>protocol\<close> is the scheme followed by a colon.
\<close>

definition isC0ControlOrSpace :: "char \<Rightarrow> bool" where
  "isC0ControlOrSpace c = ((of_char c :: nat) \<le> 32)"

definition isTabOrNewline :: "char \<Rightarrow> bool" where
  "isTabOrNewline c = ((of_char c :: nat) = 9 \<or> (of_char c :: nat) = 10 \<or> (of_char c :: nat) = 13)"

definition url_preprocess :: "string \<Rightarrow> string" where
  "url_preprocess s =
     filter (\<lambda>c. \<not> isTabOrNewline c)
       (rev (dropWhile isC0ControlOrSpace (rev (dropWhile isC0ControlOrSpace s))))"

fun scheme_state :: "string \<Rightarrow> string \<Rightarrow> (string \<times> string) option" where
  "scheme_state buf [] = None"
| "scheme_state buf (c # cs) =
     (if isAsciiAlpha c \<or> isAsciiDigit c \<or> c \<in> set ''+-.''
      then scheme_state (buf @ [asciiLower c]) cs
      else if c = CHR '':'' then Some (buf, cs)
      else None)"

definition scheme_start_state :: "string \<Rightarrow> (string \<times> string) option" where
  "scheme_start_state s =
     (case s of
        [] \<Rightarrow> None
      | c # cs \<Rightarrow> if isAsciiAlpha c then scheme_state [asciiLower c] cs else None)"

definition URL_new :: "platform \<Rightarrow> string \<Rightarrow> string option" where
  "URL_new P s =
     (case scheme_start_state (url_preprocess s) of
        None \<Rightarrow> None
      | Some (scheme, rest) \<Rightarrow> if URL_rest_ok P scheme rest then Some scheme else None)"

definition protocol :: "string \<Rightarrow> string" where
  "protocol scheme = scheme @ '':''"

section \<open>Country registry (src/enums/Country.ts)\<close>

datatype CountryCode = CountryCode_DRC | CountryCode_KENYA | CountryCode_UGANDA

record CountryMetadata =
  code :: CountryCode
  name :: string
  currency :: string
  dialCode :: string
  minimumAmount :: number

definition Country_DRC :: CountryMetadata where
  "Country_DRC =
     \<lparr>code = CountryCode_DRC, name = ''Democratic Republic of Congo'', currency = ''CDF'',
      dialCode = ''+243'', minimumAmount = Finite 2900\<rparr>"

definition Country_KENYA :: CountryMetadata where
  "Country_KENYA =
     \<lparr>code = CountryCode_KENYA, name = ''Kenya'', currency = ''KES'',
      dialCode = ''+254'', minimumAmount = Finite 0\<rparr>"

definition Country_UGANDA :: CountryMetadata where
  "Country_UGANDA =
     \<lparr>code = CountryCode_UGANDA, name = ''Uganda'', currency = ''UGX'',
      dialCode = ''+256'', minimumAmount = Finite 0\<rparr>"

definition Country_getAll :: "CountryMetadata list" where
  "Country_getAll = [Country_DRC, Country_KENYA, Country_UGANDA]"

section \<open>HTTP responses\<close>

text \<open>
  What \<^verbatim>\<open>handleResponse\<close> reads of a fetch \<^verbatim>\<open>Response\<close>: the status line, the
  content-type header (\<open>None\<close> when \<^verbatim>\<open>headers.get\<close> returns null), and the outcomes of
  \<^verbatim>\<open>response.json()\<close> and \<^verbatim>\<open>response.text()\<close> (\<open>None\<close> when the promise rejects).
\<close>

record Response =
  status :: int
  statusText :: string
  contentType :: "string option"
  jsonResult :: "jsvalue option"
  textResult :: "string option"

text \<open>\<^verbatim>\<open>response.ok\<close>: the status is in the range 200 to 299.\<close>

definition ok :: "Response \<Rightarrow> bool" where
  "ok r = (200 \<le> status r \<and> status r \<le> 299)"

section \<open>Error taxonomy (src/errors)\<close>

text \<open>
  An error object: \<open>errName\<close> is \<^verbatim>\<open>this.name\<close> (the name of the class constructed),
  \<open>errCode\<close> is \<^verbatim>\<open>code\<close>, \<open>errContext\<close> is \<^verbatim>\<open>context\<close>, and \<open>response\<close> is the field
  that only \<^verbatim>\<open>ApiError\<close> sets.
\<close>

record ShwaryError =
  errName :: string
  message :: string
  errCode :: int
  errContext :: jsobject
  response :: "Response option"

definition ShwaryError_new :: "string \<Rightarrow> string \<Rightarrow> int \<Rightarrow> jsobject \<Rightarrow> ShwaryError" where
  "ShwaryError_new className msg c ctx =
     \<lparr>errName = className, message = msg, errCode = c, errContext = ctx, response = None\<rparr>"

definition ValidationError_new :: "string \<Rightarrow> jsobject \<Rightarrow> ShwaryError" where
  "ValidationError_new msg ctx = ShwaryError_new ''ValidationError'' msg 400 ctx"

definition invalidAmount :: "platform \<Rightarrow> number \<Rightarrow> CountryMetadata \<Rightarrow> ShwaryError" where
  "invalidAmount P amount country =
     ValidationError_new
       (''Amount must be greater than '' @ Number_toString P (minimumAmount country)
          @ '' '' @ currency country)
       [(''field'', JString ''amount''),
        (''value'', JNumber amount),
        (''minimum'', JNumber (minimumAmount country)),
        (''currency'', JString (currency country))]"

definition invalidPhoneNumber :: "string \<Rightarrow> CountryMetadata \<Rightarrow> ShwaryError" where
  "invalidPhoneNumber phone country =
     ValidationError_new
       (''Phone number must start with '' @ dialCode country @ '' in E.164 format'')
       [(''field'', JString ''clientPhoneNumber''),
        (''value'', JString phone),
        (''expected'', JString (dialCode country @ ''XXXXXXXXX'')),
        (''dialCode'', JString (dialCode country))]"

definition invalidCallbackUrl :: "string \<Rightarrow> ShwaryError" where
  "invalidCallbackUrl url =
     ValidationError_new ''Callback URL must be a valid HTTPS URL''
       [(''field'', JString ''callbackUrl''),
        (''value'', JString url),
        (''expected'', JString ''https://...'')]"

definition missingRequiredField :: "string \<Rightarrow> ShwaryError" where
  "missingRequiredField field =
     ValidationError_new (''Required field missing: '' @ field) [(''field'', JString field)]"

definition AuthenticationError_new :: "string \<Rightarrow> jsobject \<Rightarrow> ShwaryError" where
  "AuthenticationError_new msg ctx = ShwaryError_new ''AuthenticationError'' msg 401 ctx"

definition invalidCredentials :: ShwaryError where
  "invalidCredentials =
     AuthenticationError_new
       ''Invalid merchant credentials. Please check your merchant ID and key.''
       [(''reason'', JString ''invalid_credentials'')]"

definition ApiError_new ::
  "string \<Rightarrow> int \<Rightarrow> jsobject \<Rightarrow> Response option \<Rightarrow> ShwaryError" where
  "ApiError_new msg c ctx resp = (ShwaryError_new ''ApiError'' msg c ctx)\<lparr>response := resp\<rparr>"

text \<open>\<^verbatim>\<open>body && typeof body === 'object'\<close>: a non-null object or array.\<close>

fun isObjectValue :: "jsvalue \<Rightarrow> bool" where
  "isObjectValue (JObject kvs) = True"
| "isObjectValue (JArray xs) = True"
| "isObjectValue v = False"

text \<open>\<^verbatim>\<open>'message' in body\<close> for a truthy object: an array has no such property.\<close>

fun hasMessage :: "jsvalue \<Rightarrow> bool" where
  "hasMessage (JObject kvs) = (map_of kvs ''message'' \<noteq> None)"
| "hasMessage v = False"

fun bodyMessage :: "jsvalue \<Rightarrow> jsvalue" where
  "bodyMessage (JObject kvs) = getProp kvs ''message''"
| "bodyMessage v = JUndefined"

text \<open>An integral status code as a number, and in a template literal.\<close>

definition statusNumber :: "int \<Rightarrow> number" where
  "statusNumber st = Finite (real_of_int st)"

text \<open>\<open>None\<close> when \<^verbatim>\<open>String(body.message)\<close> throws its TypeError.\<close>

definition getMessageForStatus :: "platform \<Rightarrow> int \<Rightarrow> jsvalue \<Rightarrow> string option" where
  "getMessageForStatus P st body =
     (if hasMessage body then ToString P (bodyMessage body)
      else if st = 400 then Some ''Bad Request: Invalid payment parameters''
      else if st = 401 then Some ''Unauthorized: Invalid merchant credentials''
      else if st = 404 then Some ''Not Found: Client or merchant not found''
      else if st = 502 then Some ''Bad Gateway: Payment provider unavailable''
      else Some (''API Error: '' @ Number_toString P (statusNumber st)))"

text \<open>
  \<open>fromResponse\<close> builds the context, then the message, then the error: it returns
  \<open>None\<close> when building the message throws.
\<close>

definition fromResponse :: "platform \<Rightarrow> Response \<Rightarrow> jsvalue \<Rightarrow> ShwaryError option" where
  "fromResponse P resp body =
     (let ctx = [(''status'', JNumber (statusNumber (status resp))),
                 (''statusText'', JString (statusText resp))]
                @ (if isObjectValue body then [(''body'', body)] else [])
      in case getMessageForStatus P (status resp) body of
           None \<Rightarrow> None
         | Some msg \<Rightarrow> Some (ApiError_new msg (status resp) ctx (Some resp)))"

definition networkError :: "string \<Rightarrow> string option \<Rightarrow> ShwaryError" where
  "networkError msg cause =
     ApiError_new msg 0
       ([(''reason'', JString ''network_error'')]
        @ (case cause of None \<Rightarrow> [] | Some m \<Rightarrow> [(''cause'', JString m)]))
       None"

definition badGateway :: "string option \<Rightarrow> ShwaryError" where
  "badGateway msg =
     ApiError_new
       (case msg of
          None \<Rightarrow> ''Bad Gateway: Failed to reach payment provider''
        | Some m \<Rightarrow> if truthy_string m then m
                    else ''Bad Gateway: Failed to reach payment provider'')
       502 [(''reason'', JString ''bad_gateway'')] None"

definition clientNotFound :: "string \<Rightarrow> ShwaryError" where
  "clientNotFound phone =
     ApiError_new (''Client not found: '' @ phone) 404
       [(''reason'', JString ''client_not_found''), (''phone'', JString phone)] None"

section \<open>Validator (src/validation/Validator.ts)\<close>

text \<open>
  A validator returns \<open>Inr ()\<close> when it returns normally and \<open>Inl e\<close> when it throws
  \<open>e\<close>. Parameters have their declared types, so a test such as
  \<^verbatim>\<open>typeof amount !== 'number'\<close> is false and is left out.
\<close>

definition validateAmount :: "platform \<Rightarrow> number \<Rightarrow> CountryMetadata \<Rightarrow> ShwaryError + unit" where
  "validateAmount P amount country =
     (if num_le amount (Finite 0) then Inl (invalidAmount P amount country)
      else if num_lt amount (minimumAmount country) then Inl (invalidAmount P amount country)
      else Inr ())"

text \<open>The pattern \<^verbatim>\<open>/^\+\d{1,15}$/\<close>.\<close>

definition e164Regex_test :: "string \<Rightarrow> bool" where
  "e164Regex_test phone =
     (case phone of
        [] \<Rightarrow> False
      | c # ds \<Rightarrow> c = CHR ''+'' \<and> 1 \<le> length ds \<and> length ds \<le> 15 \<and> list_all isAsciiDigit ds)"

definition isValidPhoneFormat :: "string \<Rightarrow> string \<Rightarrow> bool" where
  "isValidPhoneFormat phone dial =
     (if \<not> e164Regex_test phone then False
      else if \<not> prefix dial phone then False
      else True)"

definition validatePhoneNumber :: "string \<Rightarrow> CountryMetadata \<Rightarrow> ShwaryError + unit" where
  "validatePhoneNumber phone country =
     (if \<not> truthy_string phone
      then Inl (invalidPhoneNumber (if truthy_string phone then phone else []) country)
      else if \<not> isValidPhoneFormat phone (dialCode country)
      then Inl (invalidPhoneNumber phone country)
      else Inr ())"

definition isValidHttpsUrl :: "platform \<Rightarrow> string \<Rightarrow> bool" where
  "isValidHttpsUrl P url =
     (case URL_new P url of
        None \<Rightarrow> False
      | Some scheme \<Rightarrow> protocol scheme = ''https:'')"

text \<open>The optional parameter \<^verbatim>\<open>url?: string\<close> is \<open>None\<close> when it is undefined.\<close>

definition validateCallbackUrl :: "platform \<Rightarrow> string option \<Rightarrow> ShwaryError + unit" where
  "validateCallbackUrl P url =
     (case url of
        None \<Rightarrow> Inr ()
      | Some u \<Rightarrow>
          if \<not> truthy_string u then Inr ()
          else if \<not> isValidHttpsUrl P u then Inl (invalidCallbackUrl u)
          else Inr ())"

text \<open>
  The request data as the validator receives it at run time: each field has its
  declared type, or is \<open>None\<close> when the caller left it undefined.
\<close>

record PaymentRequestData =
  amount :: "number option"
  clientPhoneNumber :: "string option"
  country :: "CountryMetadata option"
  callbackUrl :: "string option"

definition validatePaymentRequest :: "platform \<Rightarrow> PaymentRequestData \<Rightarrow> ShwaryError + unit" where
  "validatePaymentRequest P request =
     (case amount request of
        None \<Rightarrow> Inl (missingRequiredField ''amount'')
      | Some a \<Rightarrow>
          if \<not> truthy_number a then Inl (missingRequiredField ''amount'')
          else
            (case clientPhoneNumber request of
               None \<Rightarrow> Inl (missingRequiredField ''clientPhoneNumber'')
             | Some p \<Rightarrow>
                 if \<not> truthy_string p then Inl (missingRequiredField ''clientPhoneNumber'')
                 else
                   (case country request of
                      None \<Rightarrow> Inl (missingRequiredField ''country'')
                    | Some c \<Rightarrow>
                        (case validateAmount P a c of
                           Inl e \<Rightarrow> Inl e
                         | Inr u \<Rightarrow>
                             (case validatePhoneNumber p c of
                                Inl e \<Rightarrow> Inl e
                              | Inr u \<Rightarrow> validateCallbackUrl P (callbackUrl request))))))"

section \<open>PaymentRequest (src/types/PaymentRequest.ts)\<close>

text \<open>
  The constructor validates its argument and copies the four fields, so an instance
  holds exactly the data it was built from.
\<close>

type_synonym PaymentRequest = PaymentRequestData

definition PaymentRequest_new :: "platform \<Rightarrow> PaymentRequestData \<Rightarrow> ShwaryError + PaymentRequest" where
  "PaymentRequest_new P d =
     (case validatePaymentRequest P d of
        Inl e \<Rightarrow> Inl e
      | Inr u \<Rightarrow>
          Inr \<lparr>amount = amount d, clientPhoneNumber = clientPhoneNumber d,
               country = country d, callbackUrl = callbackUrl d\<rparr>)"

definition PaymentRequest_create ::
  "platform \<Rightarrow> number \<Rightarrow> string \<Rightarrow> CountryMetadata \<Rightarrow> string option
    \<Rightarrow> ShwaryError + PaymentRequest" where
  "PaymentRequest_create P a phone c cb =
     PaymentRequest_new P
       \<lparr>amount = Some a, clientPhoneNumber = Some phone, country = Some c, callbackUrl = cb\<rparr>"

section \<open>HttpClient.handleResponse (src/http/HttpClient.ts)\<close>

text \<open>The \<^verbatim>\<open>try\<close> block that reads the body: null when reading it throws.\<close>

definition parseBody :: "Response \<Rightarrow> jsvalue" where
  "parseBody resp =
     (if (case contentType resp of
            None \<Rightarrow> False
          | Some ct \<Rightarrow> includes_str ct ''application/json'')
      then (case jsonResult resp of None \<Rightarrow> JNull | Some v \<Rightarrow> v)
      else (case textResult resp of None \<Rightarrow> JNull | Some t \<Rightarrow> JString t))"

text \<open>
  What \<open>handleResponse\<close> throws: an error of the taxonomy, or the TypeError that
  escapes from \<open>fromResponse\<close>.
\<close>

datatype exception = TypeError | Raised ShwaryError

text \<open>\<^verbatim>\<open>throw await ApiError.fromResponse(response, body)\<close>.\<close>

definition throwFromResponse :: "platform \<Rightarrow> Response \<Rightarrow> jsvalue \<Rightarrow> exception" where
  "throwFromResponse P resp body =
     (case fromResponse P resp body of None \<Rightarrow> TypeError | Some e \<Rightarrow> Raised e)"

definition handleResponse :: "platform \<Rightarrow> Response \<Rightarrow> exception + jsvalue" where
  "handleResponse P resp =
     (let body = parseBody resp in
      if \<not> ok resp then
        (if status resp = 401 then Inl (Raised invalidCredentials)
         else if status resp = 404 then Inl (throwFromResponse P resp body)
         else if status resp = 502 then Inl (Raised (badGateway None))
         else Inl (throwFromResponse P resp body))
      else Inr body)"

section \<open>Transaction (src/enums/TransactionStatus.ts, src/types/Transaction.ts)\<close>

text \<open>The members of the string enum \<^verbatim>\<open>TransactionStatus\<close>.\<close>

definition TransactionStatus_PENDING :: jsvalue where
  "TransactionStatus_PENDING = JString ''pending''"

definition TransactionStatus_COMPLETED :: jsvalue where
  "TransactionStatus_COMPLETED = JString ''completed''"

definition TransactionStatus_FAILED :: jsvalue where
  "TransactionStatus_FAILED = JString ''failed''"

definition isTerminal :: "jsvalue \<Rightarrow> bool" where
  "isTerminal st = (st = TransactionStatus_COMPLETED \<or> st = TransactionStatus_FAILED)"

text \<open>
  \<^verbatim>\<open>TransactionData\<close> (fields prefixed \<open>td_\<close>) and \<^verbatim>\<open>Transaction\<close> (fields prefixed
  \<open>tx_\<close>). A field that \<^verbatim>\<open>fromApiResponse\<close> fills through a type assertion
  (\<^verbatim>\<open>data.status as TransactionStatus\<close>, \<^verbatim>\<open>data.error as string\<close>) holds whatever
  value the raw object has, so it is a \<open>jsvalue\<close>.
\<close>

record TransactionData =
  td_id :: string
  td_userId :: string
  td_amount :: number
  td_currency :: string
  td_type :: string
  td_status :: jsvalue
  td_recipientPhoneNumber :: string
  td_referenceId :: string
  td_metadata :: jsvalue
  td_failureReason :: jsvalue
  td_completedAt :: jsvalue
  td_createdAt :: string
  td_updatedAt :: string
  td_isSandbox :: bool
  td_pretiumTransactionId :: jsvalue
  td_error :: jsvalue

record Transaction =
  tx_id :: string
  tx_userId :: string
  tx_amount :: number
  tx_currency :: string
  tx_type :: string
  tx_status :: jsvalue
  tx_recipientPhoneNumber :: string
  tx_referenceId :: string
  tx_metadata :: jsvalue
  tx_failureReason :: jsvalue
  tx_completedAt :: "Date option"
  tx_createdAt :: Date
  tx_updatedAt :: Date
  tx_isSandbox :: bool
  tx_pretiumTransactionId :: jsvalue
  tx_error :: jsvalue

text \<open>
  The constructor: \<open>None\<close> when \<^verbatim>\<open>new Date(data.completedAt)\<close> throws a TypeError
  (the two other dates are built from strings).
\<close>

definition Transaction_new :: "platform \<Rightarrow> TransactionData \<Rightarrow> Transaction option" where
  "Transaction_new P d =
     (case (if ToBoolean (td_completedAt d) then map_option Some (Date_new P (td_completedAt d))
            else Some None) of
        None \<Rightarrow> None
      | Some completed \<Rightarrow>
          Some
            \<lparr>tx_id = td_id d,
             tx_userId = td_userId d,
             tx_amount = td_amount d,
             tx_currency = td_currency d,
             tx_type = td_type d,
             tx_status = td_status d,
             tx_recipientPhoneNumber = td_recipientPhoneNumber d,
             tx_referenceId = td_referenceId d,
             tx_metadata = coalesce (td_metadata d) JNull,
             tx_failureReason = coalesce (td_failureReason d) JNull,
             tx_completedAt = completed,
             tx_createdAt = Date_construct P (JString (td_createdAt d)),
             tx_updatedAt = Date_construct P (JString (td_updatedAt d)),
             tx_isSandbox = td_isSandbox d,
             tx_pretiumTransactionId = coalesce (td_pretiumTransactionId d) JNull,
             tx_error = coalesce (td_error d) JNull\<rparr>)"

text \<open>
  \<^verbatim>\<open>new Date()\<close> reads the clock: \<open>nowCreated\<close> and \<open>nowUpdated\<close> are the time values it
  gives where the defaults of \<^verbatim>\<open>createdAt\<close> and \<^verbatim>\<open>updatedAt\<close> are evaluated. The
  result is \<open>None\<close> when a conversion (\<^verbatim>\<open>String\<close>, \<^verbatim>\<open>Number\<close>, \<^verbatim>\<open>new Date\<close>) throws
  its TypeError, and the transaction otherwise.
\<close>

definition Transaction_fromApiResponse ::
  "platform \<Rightarrow> int \<Rightarrow> int \<Rightarrow> jsobject \<Rightarrow> Transaction option" where
  "Transaction_fromApiResponse P nowCreated nowUpdated data =
     do {
       v_id \<leftarrow> ToString P (coalesce (getProp data ''id'') (JString []));
       v_userId \<leftarrow> ToString P (coalesce (getProp data ''userId'') (JString []));
       v_amount \<leftarrow> ToNumber P (coalesce (getProp data ''amount'') (JNumber (Finite 0)));
       v_currency \<leftarrow> ToString P (coalesce (getProp data ''currency'') (JString []));
       v_type \<leftarrow> ToString P (coalesce (getProp data ''type'') (JString ''deposit''));
       v_recipient \<leftarrow>
         ToString P (coalesce (getProp data ''recipientPhoneNumber'') (JString []));
       v_referenceId \<leftarrow> ToString P (coalesce (getProp data ''referenceId'') (JString []));
       v_createdAt \<leftarrow>
         ToString P (coalesce (getProp data ''createdAt'')
           (JString (Date_toISOString P nowCreated)));
       v_updatedAt \<leftarrow>
         ToString P (coalesce (getProp data ''updatedAt'')
           (JString (Date_toISOString P nowUpdated)));
       Transaction_new P
         \<lparr>td_id = v_id,
          td_userId = v_userId,
          td_amount = v_amount,
          td_currency = v_currency,
          td_type = v_type,
          td_status = coalesce (getProp data ''status'') TransactionStatus_PENDING,
          td_recipientPhoneNumber = v_recipient,
          td_referenceId = v_referenceId,
          td_metadata = coalesce (getProp data ''metadata'') JNull,
          td_failureReason = coalesce (getProp data ''failureReason'') JNull,
          td_completedAt = coalesce (getProp data ''completedAt'') JNull,
          td_createdAt = v_createdAt,
          td_updatedAt = v_updatedAt,
          td_isSandbox = ToBoolean (coalesce (getProp data ''isSandbox'') (JBool False)),
          td_pretiumTransactionId = coalesce (getProp data ''pretiumTransactionId'') JNull,
          td_error = coalesce (getProp data ''error'') JNull\<rparr>
     }"

text \<open>\<^verbatim>\<open>toISOString()\<close> throws a RangeError on an invalid date: \<open>None\<close>.\<close>

fun toISOString :: "platform \<Rightarrow> Date \<Rightarrow> string option" where
  "toISOString P (TimeValue t) = Some (Date_toISOString P t)"
| "toISOString P InvalidDate = None"

definition Transaction_toJSON :: "platform \<Rightarrow> Transaction \<Rightarrow> jsobject option" where
  "Transaction_toJSON P tx =
     (case (case tx_completedAt tx of
              None \<Rightarrow> Some JNull
            | Some d \<Rightarrow> map_option JString (toISOString P d)) of
        None \<Rightarrow> None
      | Some completed \<Rightarrow>
          (case toISOString P (tx_createdAt tx) of
             None \<Rightarrow> None
           | Some created \<Rightarrow>
               (case toISOString P (tx_updatedAt tx) of
                  None \<Rightarrow> None
                | Some updated \<Rightarrow>
                    Some [(''id'', JString (tx_id tx)),
                          (''userId'', JString (tx_userId tx)),
                          (''amount'', JNumber (tx_amount tx)),
                          (''currency'', JString (tx_currency tx)),
                          (''type'', JString (tx_type tx)),
                          (''status'', tx_status tx),
                          (''recipientPhoneNumber'', JString (tx_recipientPhoneNumber tx)),
                          (''referenceId'', JString (tx_referenceId tx)),
                          (''metadata'', tx_metadata tx),
                          (''failureReason'', tx_failureReason tx),
                          (''completedAt'', completed),
                          (''createdAt'', JString created),
                          (''updatedAt'', JString updated),
                          (''isSandbox'', JBool (tx_isSandbox tx)),
                          (''pretiumTransactionId'', tx_pretiumTransactionId tx),
                          (''error'', tx_error tx)])))"

section \<open>Config (src/Config.ts)\<close>

record ConfigOptions =
  opt_merchantId :: string
  opt_merchantKey :: string
  opt_baseUrl :: "string option"
  opt_timeout :: "number option"
  opt_sandbox :: "bool option"

record Config =
  merchantId :: string
  merchantKey :: string
  baseUrl :: string
  timeout :: number
  sandbox :: bool

definition DEFAULT_BASE_URL :: string where
  "DEFAULT_BASE_URL = ''https://api.shwary.com''"

definition DEFAULT_TIMEOUT :: number where
  "DEFAULT_TIMEOUT = Finite 30000"

text \<open>\<^verbatim>\<open>baseUrl.replace(/\/$/, '')\<close>: one trailing slash is removed.\<close>

definition removeTrailingSlash :: "string \<Rightarrow> string" where
  "removeTrailingSlash s = (if s \<noteq> [] \<and> last s = CHR ''/'' then butlast s else s)"

text \<open>\<open>Inl m\<close> is \<^verbatim>\<open>throw new Error(m)\<close>.\<close>

definition Config_validate :: "platform \<Rightarrow> Config \<Rightarrow> string + unit" where
  "Config_validate P cfg =
     (if \<not> truthy_string (merchantId cfg)
      then Inl ''Merchant ID is required and must be a string''
      else if \<not> truthy_string (merchantKey cfg)
      then Inl ''Merchant Key is required and must be a string''
      else if num_lt (timeout cfg) (Finite 1000)
      then Inl ''Timeout must be at least 1000 milliseconds''
      else (case URL_new P (baseUrl cfg) of
              None \<Rightarrow> Inl (''Invalid base URL: '' @ baseUrl cfg)
            | Some u \<Rightarrow> Inr ()))"

definition Config_new :: "platform \<Rightarrow> ConfigOptions \<Rightarrow> string + Config" where
  "Config_new P options =
     (let cfg =
        \<lparr>merchantId = opt_merchantId options,
         merchantKey = opt_merchantKey options,
         baseUrl =
           removeTrailingSlash
             (case opt_baseUrl options of None \<Rightarrow> DEFAULT_BASE_URL | Some b \<Rightarrow> b),
         timeout = (case opt_timeout options of None \<Rightarrow> DEFAULT_TIMEOUT | Some t \<Rightarrow> t),
         sandbox = (case opt_sandbox options of None \<Rightarrow> False | Some b \<Rightarrow> b)\<rparr>
      in case Config_validate P cfg of Inl m \<Rightarrow> Inl m | Inr u \<Rightarrow> Inr cfg)"

text \<open>\<^verbatim>\<open>env.X || d\<close> on an environment variable: \<open>d\<close> when it is unset or empty.\<close>

definition orDefault :: "string option \<Rightarrow> string \<Rightarrow> string" where
  "orDefault v d = (case v of None \<Rightarrow> d | Some s \<Rightarrow> if truthy_string s then s else d)"

definition Config_fromEnvironment :: "platform \<Rightarrow> (string \<rightharpoonup> string) \<Rightarrow> string + Config" where
  "Config_fromEnvironment P env =
     Config_new P
       \<lparr>opt_merchantId = orDefault (env ''SHWARY_MERCHANT_ID'') [],
        opt_merchantKey = orDefault (env ''SHWARY_MERCHANT_KEY'') [],
        opt_baseUrl = Some (orDefault (env ''SHWARY_BASE_URL'') DEFAULT_BASE_URL),
        opt_timeout =
          Some (case env ''SHWARY_TIMEOUT'' of
                  None \<Rightarrow> DEFAULT_TIMEOUT
                | Some t \<Rightarrow> if truthy_string t then parseInt10 P t else DEFAULT_TIMEOUT),
        opt_sandbox =
          Some (env ''SHWARY_SANDBOX'' = Some ''true'' \<or> env ''SHWARY_SANDBOX'' = Some ''1''
                \<or> env ''SHWARY_SANDBOX'' = Some ''yes'')\<rparr>"

section \<open>A platform for running examples\<close>

text \<open>
  An instance of the platform parameters, used where an example has to be evaluated.
  It follows the runtime on the inputs the examples give it and is not a model of the
  runtime beyond them: integers print in decimal (fractions are cut off); a string of
  decimal digits converts to that number; a date prints and parses in the form
  \<^verbatim>\<open>YYYY-MM-DDTHH:mm:ss.sssZ\<close> (years 0000 to 9999); the URL parser accepts, after
  the slashes of a special scheme, a host of letters, digits, dots and hyphens.
\<close>

definition digitChar :: "nat \<Rightarrow> char" where
  "digitChar n = ''0123456789'' ! (n mod 10)"

fun padded :: "nat \<Rightarrow> nat \<Rightarrow> string" where
  "padded 0 n = []"
| "padded (Suc w) n = padded w (n div 10) @ [digitChar n]"

fun decimal :: "nat \<Rightarrow> string" where
  "decimal n = (if n < 10 then [digitChar n] else decimal (n div 10) @ [digitChar n])"

definition digitValue :: "char \<Rightarrow> nat" where
  "digitValue c = (case map_of (zip ''0123456789'' [0..<10]) c of None \<Rightarrow> 0 | Some d \<Rightarrow> d)"

definition digitsValue :: "string \<Rightarrow> nat" where
  "digitsValue ds = foldl (\<lambda>acc c. 10 * acc + digitValue c) 0 ds"

definition sample_Number_toString :: "number \<Rightarrow> string" where
  "sample_Number_toString n =
     (case n of
        NaN \<Rightarrow> ''NaN''
      | PosInfinity \<Rightarrow> ''Infinity''
      | NegInfinity \<Rightarrow> ''-Infinity''
      | Finite x \<Rightarrow> (if x \<le> -1 then ''-'' else []) @ decimal (nat \<lfloor>\<bar>x\<bar>\<rfloor>))"

definition sample_StringToNumber :: "string \<Rightarrow> number" where
  "sample_StringToNumber s =
     (if s \<noteq> [] \<and> list_all isAsciiDigit s then Finite (real (digitsValue s)) else NaN)"

definition sample_parseInt10 :: "string \<Rightarrow> number" where
  "sample_parseInt10 s = sample_StringToNumber (takeWhile isAsciiDigit s)"

text \<open>Days since the epoch of a civil date, and back (proleptic Gregorian calendar).\<close>

definition daysFromCivil :: "int \<Rightarrow> int \<Rightarrow> int \<Rightarrow> int" where
  "daysFromCivil y m d =
     (let y' = (if m \<le> 2 then y - 1 else y);
          era = y' div 400;
          yoe = y' - era * 400;
          doy = (153 * (if m > 2 then m - 3 else m + 9) + 2) div 5 + d - 1;
          doe = yoe * 365 + yoe div 4 - yoe div 100 + doy
      in era * 146097 + doe - 719468)"

definition civilFromDays :: "int \<Rightarrow> int \<times> int \<times> int" where
  "civilFromDays z0 =
     (let z = z0 + 719468;
          era = z div 146097;
          doe = z - era * 146097;
          yoe = (doe - doe div 1460 + doe div 36524 - doe div 146096) div 365;
          doy = doe - (365 * yoe + yoe div 4 - yoe div 100);
          mp = (5 * doy + 2) div 153;
          d = doy - (153 * mp + 2) div 5 + 1;
          m = (if mp < 10 then mp + 3 else mp - 9);
          y = yoe + era * 400 + (if m \<le> 2 then 1 else 0)
      in (y, m, d))"

definition sample_Date_toISOString :: "int \<Rightarrow> string" where
  "sample_Date_toISOString t =
     (let ms = t mod 86400000;
          (y, m, d) = civilFromDays (t div 86400000)
      in padded 4 (nat y) @ ''-'' @ padded 2 (nat m) @ ''-'' @ padded 2 (nat d) @ ''T''
         @ padded 2 (nat (ms div 3600000)) @ '':''
         @ padded 2 (nat (ms div 60000 mod 60)) @ '':''
         @ padded 2 (nat (ms div 1000 mod 60)) @ ''.''
         @ padded 3 (nat (ms mod 1000)) @ ''Z'')"

definition sample_Date_parse :: "string \<Rightarrow> Date" where
  "sample_Date_parse s =
     (let num = (\<lambda>i n. int (digitsValue (take n (drop i s))));
          digitsAt = (\<lambda>i n. list_all isAsciiDigit (take n (drop i s)));
          y = num 0 4; m = num 5 2; d = num 8 2;
          hh = num 11 2; mi = num 14 2; ss = num 17 2; ms = num 20 3
      in if length s = 24 \<and> digitsAt 0 4 \<and> digitsAt 5 2 \<and> digitsAt 8 2 \<and> digitsAt 11 2
            \<and> digitsAt 14 2 \<and> digitsAt 17 2 \<and> digitsAt 20 3
            \<and> map (\<lambda>i. s ! i) [4, 7, 10, 13, 16, 19, 23] = ''--T::.Z''
            \<and> hh < 24 \<and> mi < 60 \<and> ss < 60
            \<and> civilFromDays (daysFromCivil y m d) = (y, m, d)
         then TimeValue
                (daysFromCivil y m d * 86400000 + hh * 3600000 + mi * 60000 + ss * 1000 + ms)
         else InvalidDate)"

definition sample_Date_construct :: "jsvalue \<Rightarrow> Date" where
  "sample_Date_construct v =
     (case v of
        JString s \<Rightarrow> sample_Date_parse s
      | JNumber (Finite x) \<Rightarrow> TimeValue \<lfloor>x\<rfloor>
      | _ \<Rightarrow> InvalidDate)"

definition sample_URL_rest_ok :: "string \<Rightarrow> string \<Rightarrow> bool" where
  "sample_URL_rest_ok scheme rest =
     (if scheme \<in> set [''http'', ''https'', ''ws'', ''wss'', ''ftp'']
      then (let afterSlashes = dropWhile (\<lambda>c. c \<in> set [CHR ''/'', CHR 0x5C]) rest;
                host = takeWhile (\<lambda>c. c \<notin> set [CHR ''/'', CHR 0x5C, CHR ''?'', CHR ''#'']) afterSlashes
            in host \<noteq> []
               \<and> list_all (\<lambda>c. isAsciiAlpha c \<or> isAsciiDigit c \<or> c \<in> set ''.-'') host)
      else True)"

definition samplePlatform :: platform where
  "samplePlatform =
     \<lparr>Number_toString = sample_Number_toString,
      StringToNumber = sample_StringToNumber,
      parseInt10 = sample_parseInt10,
      Date_construct = sample_Date_construct,
      Date_toISOString = sample_Date_toISOString,
      URL_rest_ok = sample_URL_rest_ok\<rparr>"

section \<open>Properties\<close>

subsection \<open>Comparison of numbers\<close>

lemma num_le_iff: "a \<noteq> NaN \<Longrightarrow> b \<noteq> NaN \<Longrightarrow> num_le a b = (\<not> num_lt b a)"
  by (cases a; cases b) simp_all

subsection \<open>Validator.validateAmount\<close>

text \<open>
  C1 (as amended). For a country whose minimum is a number (as for DRC, Kenya and
  Uganda) and an amount other than NaN, \<open>validateAmount\<close> returns normally exactly
  when the amount is positive and at least the country's minimum, and throws
  \<open>invalidAmount\<close> otherwise. An amount equal to the minimum is accepted for DRC
  (2900) and rejected for Kenya and Uganda, whose minimum 0 is not positive.
\<close>

theorem C1_validateAmount_boundary:
  "(a \<noteq> NaN \<and> minimumAmount c \<noteq> NaN \<longrightarrow>
      validateAmount P a c =
        (if num_lt (Finite 0) a \<and> num_le (minimumAmount c) a then Inr ()
         else Inl (invalidAmount P a c)))
   \<and> validateAmount P (minimumAmount Country_DRC) Country_DRC = Inr ()
   \<and> validateAmount P (minimumAmount Country_KENYA) Country_KENYA
       = Inl (invalidAmount P (Finite 0) Country_KENYA)
   \<and> validateAmount P (minimumAmount Country_UGANDA) Country_UGANDA
       = Inl (invalidAmount P (Finite 0) Country_UGANDA)"
proof -
  have general: "validateAmount P a c =
        (if num_lt (Finite 0) a \<and> num_le (minimumAmount c) a then Inr ()
         else Inl (invalidAmount P a c))"
    if "a \<noteq> NaN" "minimumAmount c \<noteq> NaN"
    using that by (simp add: validateAmount_def num_le_iff)
  have drc: "validateAmount P (minimumAmount Country_DRC) Country_DRC = Inr ()"
    by (simp add: validateAmount_def Country_DRC_def)
  have ke: "validateAmount P (minimumAmount Country_KENYA) Country_KENYA
       = Inl (invalidAmount P (Finite 0) Country_KENYA)"
    by (simp add: validateAmount_def Country_KENYA_def)
  have ug: "validateAmount P (minimumAmount Country_UGANDA) Country_UGANDA
       = Inl (invalidAmount P (Finite 0) Country_UGANDA)"
    by (simp add: validateAmount_def Country_UGANDA_def)
  from general drc ke ug show ?thesis by blast
qed

text \<open>The theorem at the amounts 5000 and 1000 for DRC.\<close>

theorem C1_validateAmount_boundary_witness:
  "validateAmount samplePlatform (Finite 5000) Country_DRC = Inr ()
   \<and> validateAmount samplePlatform (Finite 1000) Country_DRC
       = Inl (invalidAmount samplePlatform (Finite 1000) Country_DRC)"
proof -
  have a: "Finite 5000 \<noteq> NaN \<and> minimumAmount Country_DRC \<noteq> NaN"
    by (simp add: Country_DRC_def)
  have b: "Finite 1000 \<noteq> NaN \<and> minimumAmount Country_DRC \<noteq> NaN"
    by (simp add: Country_DRC_def)
  from a C1_validateAmount_boundary [of "Finite 5000" Country_DRC samplePlatform]
  have "validateAmount samplePlatform (Finite 5000) Country_DRC = Inr ()"
    by (simp add: Country_DRC_def)
  moreover from b C1_validateAmount_boundary [of "Finite 1000" Country_DRC samplePlatform]
  have "validateAmount samplePlatform (Finite 1000) Country_DRC
       = Inl (invalidAmount samplePlatform (Finite 1000) Country_DRC)"
    by (simp add: Country_DRC_def)
  ultimately show ?thesis by simp
qed

text \<open>
  C1 as stated fails: for Kenya and for Uganda the amount equal to the minimum, 0, is
  rejected by the test \<^verbatim>\<open>amount <= 0\<close>.
\<close>

theorem C1_minimum_rejected_counterexample:
  "minimumAmount Country_KENYA = Finite 0
   \<and> validateAmount samplePlatform (Finite 0) Country_KENYA
       = Inl (invalidAmount samplePlatform (Finite 0) Country_KENYA)
   \<and> minimumAmount Country_UGANDA = Finite 0
   \<and> validateAmount samplePlatform (Finite 0) Country_UGANDA
       = Inl (invalidAmount samplePlatform (Finite 0) Country_UGANDA)"
  by (simp add: validateAmount_def Country_KENYA_def Country_UGANDA_def)

text \<open>
  NaN is outside the statement above: both comparisons are false on it, so
  \<open>validateAmount\<close> returns normally.
\<close>

lemma validateAmount_NaN: "validateAmount P NaN c = Inr ()"
  by (simp add: validateAmount_def)

subsection \<open>Validator.validatePhoneNumber\<close>

text \<open>
  For DRC: a number with the plus sign and the dial code passes; one without the plus
  sign, one with Kenya's dial code and one with more than 15 digits are rejected.
\<close>

lemma validatePhoneNumber_examples:
  "validatePhoneNumber ''+243812345678'' Country_DRC = Inr ()"
  "validatePhoneNumber ''243812345678'' Country_DRC
     = Inl (invalidPhoneNumber ''243812345678'' Country_DRC)"
  "validatePhoneNumber ''+254812345678'' Country_DRC
     = Inl (invalidPhoneNumber ''+254812345678'' Country_DRC)"
  "validatePhoneNumber ''+2438123456789012'' Country_DRC
     = Inl (invalidPhoneNumber ''+2438123456789012'' Country_DRC)"
  by (simp_all add: validatePhoneNumber_def isValidPhoneFormat_def e164Regex_test_def
      truthy_string_def Country_DRC_def isAsciiDigit_def)

subsection \<open>Validator.validatePaymentRequest: required fields\<close>

lemma missing_ne_invalidAmount: "missingRequiredField f \<noteq> invalidAmount P a c"
  by (simp add: missingRequiredField_def invalidAmount_def ValidationError_new_def ShwaryError_new_def)

lemma validatePaymentRequest_falsy_amount:
  "(\<And>a. amount r = Some a \<Longrightarrow> \<not> truthy_number a) \<Longrightarrow>
   validatePaymentRequest P r = Inl (missingRequiredField ''amount'')"
  by (cases "amount r") (simp_all add: validatePaymentRequest_def)

text \<open>
  C10. For every request whose amount is exactly 0, whatever its country,
  \<open>validatePaymentRequest\<close> throws \<open>missingRequiredField\<close> for \<^verbatim>\<open>amount\<close>, whose context
  is \<^verbatim>\<open>{field: 'amount'}\<close>, and not the \<open>invalidAmount\<close> error: the presence test
  \<^verbatim>\<open>!request.amount\<close> is a truthiness test, and 0 is falsy.
\<close>

theorem C10_zero_amount_reported_missing:
  "amount r = Some (Finite 0) \<Longrightarrow>
     validatePaymentRequest P r = Inl (missingRequiredField ''amount'')
     \<and> errContext (missingRequiredField ''amount'') = [(''field'', JString ''amount'')]
     \<and> validatePaymentRequest P r \<noteq> Inl (invalidAmount P (Finite 0) c)"
proof -
  assume z: "amount r = Some (Finite 0)"
  then have m: "validatePaymentRequest P r = Inl (missingRequiredField ''amount'')"
    by (intro validatePaymentRequest_falsy_amount) simp
  have ctx: "errContext (missingRequiredField ''amount'') = [(''field'', JString ''amount'')]"
    by (simp add: missingRequiredField_def ValidationError_new_def ShwaryError_new_def)
  from m ctx missing_ne_invalidAmount [of "''amount''" P "Finite 0" c]
  show ?thesis by simp
qed

text \<open>
  The theorem at a request with amount 0 for each of the three countries.
\<close>

theorem C10_zero_amount_reported_missing_witness:
  "list_all
     (\<lambda>c. validatePaymentRequest samplePlatform
             \<lparr>amount = Some (Finite 0), clientPhoneNumber = Some ''+243812345678'',
              country = Some c, callbackUrl = None\<rparr>
           = Inl (missingRequiredField ''amount''))
     Country_getAll"
proof -
  have "validatePaymentRequest samplePlatform
             \<lparr>amount = Some (Finite 0), clientPhoneNumber = Some ''+243812345678'',
              country = Some c, callbackUrl = None\<rparr>
           = Inl (missingRequiredField ''amount'')" for c
    using C10_zero_amount_reported_missing
      [of "\<lparr>amount = Some (Finite 0), clientPhoneNumber = Some ''+243812345678'',
              country = Some c, callbackUrl = None\<rparr>" samplePlatform c]
    by simp
  then show ?thesis by (simp add: Country_getAll_def)
qed

subsection \<open>Validator.validatePaymentRequest: order of the checks\<close>

text \<open>
  C6 (as amended). \<open>validatePaymentRequest\<close> tests amount, then clientPhoneNumber,
  then country for truthiness: an undefined, zero or NaN amount, an undefined or empty
  phone number and an undefined country count as missing, and the first such field
  gives \<open>missingRequiredField\<close> of its name with nothing checked after it. Only when all
  three are truthy does it run \<open>validateAmount\<close>, then \<open>validatePhoneNumber\<close>, then
  \<open>validateCallbackUrl\<close>, and the first failure is the error thrown.
\<close>

theorem C6_validatePaymentRequest_order:
  "((\<forall>x. amount r = Some x \<longrightarrow> \<not> truthy_number x) \<longrightarrow>
      validatePaymentRequest P r = Inl (missingRequiredField ''amount''))
   \<and> (amount r = Some a \<and> truthy_number a
        \<and> (\<forall>x. clientPhoneNumber r = Some x \<longrightarrow> \<not> truthy_string x) \<longrightarrow>
      validatePaymentRequest P r = Inl (missingRequiredField ''clientPhoneNumber''))
   \<and> (amount r = Some a \<and> truthy_number a
        \<and> clientPhoneNumber r = Some p \<and> truthy_string p \<and> country r = None \<longrightarrow>
      validatePaymentRequest P r = Inl (missingRequiredField ''country''))
   \<and> (amount r = Some a \<and> truthy_number a
        \<and> clientPhoneNumber r = Some p \<and> truthy_string p \<and> country r = Some c
        \<and> validateAmount P a c = Inl e \<longrightarrow>
      validatePaymentRequest P r = Inl e)
   \<and> (amount r = Some a \<and> truthy_number a
        \<and> clientPhoneNumber r = Some p \<and> truthy_string p \<and> country r = Some c
        \<and> validateAmount P a c = Inr () \<and> validatePhoneNumber p c = Inl e \<longrightarrow>
      validatePaymentRequest P r = Inl e)
   \<and> (amount r = Some a \<and> truthy_number a
        \<and> clientPhoneNumber r = Some p \<and> truthy_string p \<and> country r = Some c
        \<and> validateAmount P a c = Inr () \<and> validatePhoneNumber p c = Inr () \<longrightarrow>
      validatePaymentRequest P r = validateCallbackUrl P (callbackUrl r))"
proof (intro conjI impI)
  assume "\<forall>x. amount r = Some x \<longrightarrow> \<not> truthy_number x"
  then show "validatePaymentRequest P r = Inl (missingRequiredField ''amount'')"
    by (intro validatePaymentRequest_falsy_amount) simp
next
  assume "amount r = Some a \<and> truthy_number a
        \<and> (\<forall>x. clientPhoneNumber r = Some x \<longrightarrow> \<not> truthy_string x)"
  then show "validatePaymentRequest P r = Inl (missingRequiredField ''clientPhoneNumber'')"
    by (cases "clientPhoneNumber r") (simp_all add: validatePaymentRequest_def)
next
  assume "amount r = Some a \<and> truthy_number a
        \<and> clientPhoneNumber r = Some p \<and> truthy_string p \<and> country r = None"
  then show "validatePaymentRequest P r = Inl (missingRequiredField ''country'')"
    by (simp add: validatePaymentRequest_def)
next
  assume "amount r = Some a \<and> truthy_number a
        \<and> clientPhoneNumber r = Some p \<and> truthy_string p \<and> country r = Some c
        \<and> validateAmount P a c = Inl e"
  then show "validatePaymentRequest P r = Inl e"
    by (simp add: validatePaymentRequest_def)
next
  assume "amount r = Some a \<and> truthy_number a
        \<and> clientPhoneNumber r = Some p \<and> truthy_string p \<and> country r = Some c
        \<and> validateAmount P a c = Inr () \<and> validatePhoneNumber p c = Inl e"
  then show "validatePaymentRequest P r = Inl e"
    by (simp add: validatePaymentRequest_def)
next
  assume "amount r = Some a \<and> truthy_number a
        \<and> clientPhoneNumber r = Some p \<and> truthy_string p \<and> country r = Some c
        \<and> validateAmount P a c = Inr () \<and> validatePhoneNumber p c = Inr ()"
  then show "validatePaymentRequest P r = validateCallbackUrl P (callbackUrl r)"
    by (simp add: validatePaymentRequest_def)
qed


lemmas char_class_defs =
  isAsciiAlpha_def isAsciiDigit_def asciiLower_def isC0ControlOrSpace_def isTabOrNewline_def

lemma validateAmount_DRC_1000:
  "validateAmount P (Finite 1000) Country_DRC = Inl (invalidAmount P (Finite 1000) Country_DRC)"
  by (simp add: validateAmount_def Country_DRC_def)

text \<open>
  The theorem at the request of amount 1000 for DRC (below the minimum 2900), and at
  the request with no field set.
\<close>

theorem C6_validatePaymentRequest_order_witness:
  "validatePaymentRequest samplePlatform
     \<lparr>amount = Some (Finite 1000), clientPhoneNumber = Some ''+243812345678'',
      country = Some Country_DRC, callbackUrl = None\<rparr>
   = Inl (invalidAmount samplePlatform (Finite 1000) Country_DRC)
   \<and> validatePaymentRequest samplePlatform
     \<lparr>amount = None, clientPhoneNumber = None, country = None, callbackUrl = None\<rparr>
   = Inl (missingRequiredField ''amount'')"
proof -
  let ?r = "\<lparr>amount = Some (Finite 1000), clientPhoneNumber = Some ''+243812345678'',
      country = Some Country_DRC, callbackUrl = None\<rparr>"
  let ?n = "\<lparr>amount = None, clientPhoneNumber = None, country = (None :: CountryMetadata option),
      callbackUrl = None\<rparr>"
  have pre: "amount ?r = Some (Finite 1000) \<and> truthy_number (Finite 1000)
        \<and> clientPhoneNumber ?r = Some ''+243812345678'' \<and> truthy_string ''+243812345678''
        \<and> country ?r = Some Country_DRC
        \<and> validateAmount samplePlatform (Finite 1000) Country_DRC
            = Inl (invalidAmount samplePlatform (Finite 1000) Country_DRC)"
    by (simp add: truthy_string_def validateAmount_DRC_1000)
  have pre2: "\<forall>x. amount ?n = Some x \<longrightarrow> \<not> truthy_number x"
    by simp
  from pre pre2
    C6_validatePaymentRequest_order
      [of ?r samplePlatform "Finite 1000" "''+243812345678''" Country_DRC
          "invalidAmount samplePlatform (Finite 1000) Country_DRC"]
    C6_validatePaymentRequest_order [of ?n samplePlatform]
  show ?thesis by blast
qed

text \<open>
  C6 as stated fails: in this request all three required fields are present, so by the
  claim \<open>validateAmount\<close> runs first and its \<open>invalidAmount\<close> error is thrown; the code
  throws \<open>missingRequiredField\<close> for \<^verbatim>\<open>amount\<close> instead.
\<close>

theorem C6_present_zero_amount_counterexample:
  "amount \<lparr>amount = Some (Finite 0), clientPhoneNumber = Some ''+243812345678'',
           country = Some Country_DRC, callbackUrl = None\<rparr> \<noteq> None
   \<and> validatePaymentRequest samplePlatform
       \<lparr>amount = Some (Finite 0), clientPhoneNumber = Some ''+243812345678'',
        country = Some Country_DRC, callbackUrl = None\<rparr>
     = Inl (missingRequiredField ''amount'')
   \<and> validateAmount samplePlatform (Finite 0) Country_DRC
     = Inl (invalidAmount samplePlatform (Finite 0) Country_DRC)
   \<and> missingRequiredField ''amount'' \<noteq> invalidAmount samplePlatform (Finite 0) Country_DRC"
  by (simp add: validatePaymentRequest_def validateAmount_def missing_ne_invalidAmount)

subsection \<open>Validator.validateCallbackUrl\<close>

lemma isValidHttpsUrl_iff:
  "isValidHttpsUrl P u =
     (\<exists>rest. scheme_start_state (url_preprocess u) = Some (''https'', rest)
             \<and> URL_rest_ok P ''https'' rest)"
  by (auto simp: isValidHttpsUrl_def URL_new_def protocol_def split: option.splits)

lemma scheme_http: "scheme_start_state (url_preprocess ''http://a.com'') = Some (''http'', ''//a.com'')"
  by (simp add: url_preprocess_def scheme_start_state_def char_class_defs)

lemma scheme_https: "scheme_start_state (url_preprocess ''https://a.com'') = Some (''https'', ''//a.com'')"
  by (simp add: url_preprocess_def scheme_start_state_def char_class_defs)

lemma scheme_not_a_url: "scheme_start_state (url_preprocess ''not-a-url'') = None"
  by (simp add: url_preprocess_def scheme_start_state_def char_class_defs)

lemma scheme_empty: "scheme_start_state (url_preprocess []) = None"
  by (simp add: url_preprocess_def scheme_start_state_def)

text \<open>
  C7 (as amended). \<open>validateCallbackUrl\<close> returns normally when the url is absent or
  the empty string; for every non-empty string it throws \<open>invalidCallbackUrl\<close> unless
  the string parses as a URL whose scheme is https. A string parses so exactly when,
  after the URL parser's stripping, it starts with the scheme \<^verbatim>\<open>https:\<close> (in any
  letter case) and the platform accepts the rest. So \<^verbatim>\<open>http://a.com\<close> and
  \<^verbatim>\<open>not-a-url\<close> fail on every platform, and \<^verbatim>\<open>https://a.com\<close> passes on every platform
  whose URL parser accepts the host \<^verbatim>\<open>a.com\<close>.
\<close>

theorem C7_validateCallbackUrl:
  "validateCallbackUrl P None = Inr ()
   \<and> validateCallbackUrl P (Some []) = Inr ()
   \<and> (u \<noteq> [] \<longrightarrow>
        validateCallbackUrl P (Some u) =
          (if isValidHttpsUrl P u then Inr () else Inl (invalidCallbackUrl u)))
   \<and> isValidHttpsUrl P u =
        (\<exists>rest. scheme_start_state (url_preprocess u) = Some (''https'', rest)
                \<and> URL_rest_ok P ''https'' rest)
   \<and> validateCallbackUrl P (Some ''http://a.com'') = Inl (invalidCallbackUrl ''http://a.com'')
   \<and> validateCallbackUrl P (Some ''not-a-url'') = Inl (invalidCallbackUrl ''not-a-url'')
   \<and> (URL_rest_ok P ''https'' ''//a.com'' \<longrightarrow>
        validateCallbackUrl P (Some ''https://a.com'') = Inr ())"
proof -
  have absent: "validateCallbackUrl P None = Inr ()"
    by (simp add: validateCallbackUrl_def)
  have empty: "validateCallbackUrl P (Some []) = Inr ()"
    by (simp add: validateCallbackUrl_def truthy_string_def)
  have supplied: "u \<noteq> [] \<longrightarrow>
        validateCallbackUrl P (Some u) =
          (if isValidHttpsUrl P u then Inr () else Inl (invalidCallbackUrl u))"
    by (simp add: validateCallbackUrl_def truthy_string_def)
  have http: "validateCallbackUrl P (Some ''http://a.com'') = Inl (invalidCallbackUrl ''http://a.com'')"
    by (simp add: validateCallbackUrl_def truthy_string_def isValidHttpsUrl_iff scheme_http)
  have nourl: "validateCallbackUrl P (Some ''not-a-url'') = Inl (invalidCallbackUrl ''not-a-url'')"
    by (simp add: validateCallbackUrl_def truthy_string_def isValidHttpsUrl_iff scheme_not_a_url)
  have https: "URL_rest_ok P ''https'' ''//a.com'' \<longrightarrow>
        validateCallbackUrl P (Some ''https://a.com'') = Inr ()"
    by (simp add: validateCallbackUrl_def truthy_string_def isValidHttpsUrl_iff scheme_https)
  from absent empty supplied http nourl https isValidHttpsUrl_iff [of P u]
  show ?thesis by blast
qed

lemma sample_rest_a_com: "URL_rest_ok samplePlatform ''https'' ''//a.com''"
  by (simp add: samplePlatform_def sample_URL_rest_ok_def char_class_defs)

text \<open>
  The theorem on the example platform, which accepts the host \<^verbatim>\<open>a.com\<close>.
\<close>

theorem C7_validateCallbackUrl_witness:
  "validateCallbackUrl samplePlatform (Some ''https://a.com'') = Inr ()
   \<and> validateCallbackUrl samplePlatform (Some ''http://a.com'')
       = Inl (invalidCallbackUrl ''http://a.com'')"
  using C7_validateCallbackUrl [of samplePlatform "''x''"] sample_rest_a_com
  by blast

text \<open>
  C7 as stated fails: the empty string is a supplied string that does not parse as a
  URL, and \<open>validateCallbackUrl\<close> does not throw on it (the guard \<^verbatim>\<open>!url\<close> returns).
\<close>

theorem C7_empty_string_counterexample:
  "validateCallbackUrl samplePlatform (Some []) = Inr ()
   \<and> URL_new samplePlatform [] = None
   \<and> \<not> isValidHttpsUrl samplePlatform []"
  by (simp add: validateCallbackUrl_def truthy_string_def isValidHttpsUrl_def URL_new_def scheme_empty)


subsection \<open>PaymentRequest: what a constructed instance satisfies\<close>

lemma validateAmount_ok:
  "validateAmount P a c = Inr () \<Longrightarrow> \<not> num_le a (Finite 0) \<and> \<not> num_lt a (minimumAmount c)"
  by (simp add: validateAmount_def split: if_splits)

lemma truthy_pos: "truthy_number a \<Longrightarrow> \<not> num_le a (Finite 0) \<Longrightarrow> a \<noteq> NaN \<and> num_lt (Finite 0) a"
  by (cases a) auto

lemma validatePhoneNumber_ok:
  "validatePhoneNumber p c = Inr () \<Longrightarrow> e164Regex_test p \<and> prefix (dialCode c) p"
  by (simp add: validatePhoneNumber_def isValidPhoneFormat_def split: if_splits)

lemma validateCallbackUrl_ok:
  "validateCallbackUrl P cb = Inr () \<Longrightarrow>
     (case cb of None \<Rightarrow> True | Some u \<Rightarrow> u = [] \<or> isValidHttpsUrl P u)"
  by (simp add: validateCallbackUrl_def truthy_string_def split: option.splits if_splits)

lemma validatePaymentRequest_ok:
  assumes "validatePaymentRequest P d = Inr ()"
  shows "\<exists>a p c. amount d = Some a \<and> clientPhoneNumber d = Some p \<and> country d = Some c
           \<and> truthy_number a \<and> validateAmount P a c = Inr ()
           \<and> validatePhoneNumber p c = Inr ()
           \<and> validateCallbackUrl P (callbackUrl d) = Inr ()"
  using assms
  by (auto simp: validatePaymentRequest_def split: option.splits if_splits sum.splits)

text \<open>
  C2 (as amended). Every instance the constructor returns holds the data it was given,
  with all three required fields set, and satisfies: the amount is a number greater
  than 0 and not less than the country's minimum (at least the minimum, when the
  minimum is a number); the phone number matches the E.164 pattern and starts with the
  country's dial code; the callback URL, when set and not the empty string, is a valid
  HTTPS URL.
\<close>

theorem C2_PaymentRequest_invariant:
  assumes "PaymentRequest_new P d = Inr r"
  shows "r = d
    \<and> (\<exists>a p c. amount r = Some a \<and> clientPhoneNumber r = Some p \<and> country r = Some c
          \<and> a \<noteq> NaN \<and> num_lt (Finite 0) a \<and> \<not> num_lt a (minimumAmount c)
          \<and> (minimumAmount c \<noteq> NaN \<longrightarrow> num_le (minimumAmount c) a)
          \<and> e164Regex_test p \<and> prefix (dialCode c) p
          \<and> (case callbackUrl r of None \<Rightarrow> True | Some u \<Rightarrow> u = [] \<or> isValidHttpsUrl P u))"
proof -
  from assms have v: "validatePaymentRequest P d = Inr ()" and rd: "r = d"
    by (auto simp: PaymentRequest_new_def split: sum.splits)
  from validatePaymentRequest_ok [OF v] obtain a p c where
    f: "amount d = Some a" "clientPhoneNumber d = Some p" "country d = Some c"
    and t: "truthy_number a"
    and va: "validateAmount P a c = Inr ()"
    and vp: "validatePhoneNumber p c = Inr ()"
    and vc: "validateCallbackUrl P (callbackUrl d) = Inr ()"
    by blast
  from validateAmount_ok [OF va] have na: "\<not> num_le a (Finite 0)" and nm: "\<not> num_lt a (minimumAmount c)"
    by simp_all
  from truthy_pos [OF t na] have nn: "a \<noteq> NaN" and pos: "num_lt (Finite 0) a"
    by simp_all
  from nn nm have ge: "minimumAmount c \<noteq> NaN \<longrightarrow> num_le (minimumAmount c) a"
    by (simp add: num_le_iff)
  from validatePhoneNumber_ok [OF vp] have ph: "e164Regex_test p" "prefix (dialCode c) p"
    by simp_all
  note cb = validateCallbackUrl_ok [OF vc]
  from rd f nn pos nm ge ph cb show ?thesis by simp
qed

lemma phone_DRC_ok: "validatePhoneNumber ''+243812345678'' Country_DRC = Inr ()"
  by (simp add: validatePhoneNumber_def isValidPhoneFormat_def e164Regex_test_def
      truthy_string_def Country_DRC_def isAsciiDigit_def)

lemma validateAmount_DRC_5000: "validateAmount P (Finite 5000) Country_DRC = Inr ()"
  by (simp add: validateAmount_def Country_DRC_def)

lemma callback_a_com: "validateCallbackUrl samplePlatform (Some ''https://a.com'') = Inr ()"
  by (simp add: validateCallbackUrl_def truthy_string_def isValidHttpsUrl_iff scheme_https
      sample_rest_a_com)

lemma create_5000:
  "PaymentRequest_new samplePlatform
     \<lparr>amount = Some (Finite 5000), clientPhoneNumber = Some ''+243812345678'',
      country = Some Country_DRC, callbackUrl = Some ''https://a.com''\<rparr>
   = Inr \<lparr>amount = Some (Finite 5000), clientPhoneNumber = Some ''+243812345678'',
      country = Some Country_DRC, callbackUrl = Some ''https://a.com''\<rparr>"
proof -
  have "validatePaymentRequest samplePlatform
     \<lparr>amount = Some (Finite 5000), clientPhoneNumber = Some ''+243812345678'',
      country = Some Country_DRC, callbackUrl = Some ''https://a.com''\<rparr> = Inr ()"
    by (simp add: validatePaymentRequest_def truthy_string_def validateAmount_DRC_5000
        phone_DRC_ok callback_a_com)
  then show ?thesis by (simp add: PaymentRequest_new_def)
qed

text \<open>
  The theorem at the request of amount 5000 for DRC with callback \<^verbatim>\<open>https://a.com\<close>.
\<close>

theorem C2_PaymentRequest_invariant_witness:
  "PaymentRequest_new samplePlatform
     \<lparr>amount = Some (Finite 5000), clientPhoneNumber = Some ''+243812345678'',
      country = Some Country_DRC, callbackUrl = Some ''https://a.com''\<rparr>
   = Inr \<lparr>amount = Some (Finite 5000), clientPhoneNumber = Some ''+243812345678'',
      country = Some Country_DRC, callbackUrl = Some ''https://a.com''\<rparr>
   \<and> num_le (minimumAmount Country_DRC) (Finite 5000)
   \<and> e164Regex_test ''+243812345678''
   \<and> isValidHttpsUrl samplePlatform ''https://a.com''"
proof -
  have "minimumAmount Country_DRC \<noteq> NaN" by (simp add: Country_DRC_def)
  with C2_PaymentRequest_invariant [OF create_5000] create_5000
  show ?thesis by simp
qed

text \<open>
  C2 as stated fails: the constructor returns an instance for DRC whose amount is 2900,
  which is not greater than the minimum 2900, and whose callback URL is present as the
  empty string, which is not a valid HTTPS URL.
\<close>

theorem C2_amount_equal_minimum_counterexample:
  "PaymentRequest_create samplePlatform (Finite 2900) ''+243812345678'' Country_DRC (Some [])
   = Inr \<lparr>amount = Some (Finite 2900), clientPhoneNumber = Some ''+243812345678'',
          country = Some Country_DRC, callbackUrl = Some []\<rparr>
   \<and> \<not> num_lt (minimumAmount Country_DRC) (Finite 2900)
   \<and> \<not> isValidHttpsUrl samplePlatform []"
proof -
  have "validateAmount samplePlatform (Finite 2900) Country_DRC = Inr ()"
    by (simp add: validateAmount_def Country_DRC_def)
  then have "PaymentRequest_create samplePlatform (Finite 2900) ''+243812345678'' Country_DRC (Some [])
     = Inr \<lparr>amount = Some (Finite 2900), clientPhoneNumber = Some ''+243812345678'',
          country = Some Country_DRC, callbackUrl = Some []\<rparr>"
    by (simp add: PaymentRequest_create_def PaymentRequest_new_def validatePaymentRequest_def
        truthy_string_def phone_DRC_ok validateCallbackUrl_def)
  moreover have "\<not> num_lt (minimumAmount Country_DRC) (Finite 2900)"
    by (simp add: Country_DRC_def)
  moreover have "\<not> isValidHttpsUrl samplePlatform []"
    by (simp add: isValidHttpsUrl_iff scheme_empty)
  ultimately show ?thesis by simp
qed

subsection \<open>ValidationError factories\<close>

text \<open>
  C8 (as amended). Every error of the four factories has code 400 and a context that
  names the offending field. \<open>invalidAmount\<close>, \<open>invalidPhoneNumber\<close> and
  \<open>invalidCallbackUrl\<close> also record the offending value and the expected constraint
  (the minimum and currency; the expected pattern and dial code; the expected scheme).
  The context of \<open>missingRequiredField\<close> holds the field name only.
\<close>

theorem C8_ValidationError_factories:
  "errCode (invalidAmount P a c) = 400
   \<and> errContext (invalidAmount P a c) =
       [(''field'', JString ''amount''), (''value'', JNumber a),
        (''minimum'', JNumber (minimumAmount c)), (''currency'', JString (currency c))]
   \<and> errCode (invalidPhoneNumber p c) = 400
   \<and> errContext (invalidPhoneNumber p c) =
       [(''field'', JString ''clientPhoneNumber''), (''value'', JString p),
        (''expected'', JString (dialCode c @ ''XXXXXXXXX'')), (''dialCode'', JString (dialCode c))]
   \<and> errCode (invalidCallbackUrl u) = 400
   \<and> errContext (invalidCallbackUrl u) =
       [(''field'', JString ''callbackUrl''), (''value'', JString u),
        (''expected'', JString ''https://...'')]
   \<and> errCode (missingRequiredField f) = 400
   \<and> errContext (missingRequiredField f) = [(''field'', JString f)]"
  by (simp add: invalidAmount_def invalidPhoneNumber_def invalidCallbackUrl_def
      missingRequiredField_def ValidationError_new_def ShwaryError_new_def)

text \<open>
  C8 as stated fails: the context of \<open>missingRequiredField\<close> has the single key
  \<^verbatim>\<open>field\<close>, with no value and no expected constraint.
\<close>

theorem C8_missingRequiredField_counterexample:
  "map fst (errContext (missingRequiredField ''amount'')) = [''field'']
   \<and> map_of (errContext (missingRequiredField ''amount'')) ''value'' = None
   \<and> map_of (errContext (missingRequiredField ''amount'')) ''expected'' = None"
  by (simp add: missingRequiredField_def ValidationError_new_def ShwaryError_new_def)

subsection \<open>HttpClient.handleResponse\<close>

lemma badGateway_None:
  "message (badGateway None) = ''Bad Gateway: Failed to reach payment provider''
   \<and> errCode (badGateway None) = 502
   \<and> errContext (badGateway None) = [(''reason'', JString ''bad_gateway'')]"
  by (simp add: badGateway_def ApiError_new_def ShwaryError_new_def)

text \<open>\<^verbatim>\<open>String\<close> converts every primitive value.\<close>

lemma ToString_primitive:
  "(\<forall>xs. v \<noteq> JArray xs) \<Longrightarrow> (\<forall>kvs. v \<noteq> JObject kvs) \<Longrightarrow> ToString P v \<noteq> None"
  by (cases v) simp_all

lemma fromResponse_Some:
  assumes "fromResponse P resp body = Some e"
  shows "errCode e = status resp
   \<and> getMessageForStatus P (status resp) body = Some (message e)
   \<and> errContext e =
        [(''status'', JNumber (statusNumber (status resp))),
         (''statusText'', JString (statusText resp))]
        @ (if isObjectValue body then [(''body'', body)] else [])"
  using assms
  by (auto simp: fromResponse_def Let_def ApiError_new_def ShwaryError_new_def
      split: option.splits)

lemma fromResponse_defined:
  assumes "hasMessage body \<longrightarrow> ToString P (bodyMessage body) \<noteq> None"
  shows "fromResponse P resp body \<noteq> None"
  using assms
  by (auto simp: fromResponse_def Let_def getMessageForStatus_def split: option.splits)

lemma handleResponse_cases:
  "handleResponse P resp =
     (if ok resp then Inr (parseBody resp)
      else if status resp = 401 then Inl (Raised invalidCredentials)
      else if status resp = 502 then Inl (Raised (badGateway None))
      else Inl (throwFromResponse P resp (parseBody resp)))"
  by (simp add: handleResponse_def Let_def)

text \<open>
  C3 (as amended). \<open>handleResponse\<close> returns the parsed body for a 2xx status; it
  throws \<open>invalidCredentials\<close> (code 401) for status 401; for status 502 it throws
  \<open>badGateway()\<close>, an error with a fixed message, code 502 and context
  \<^verbatim>\<open>{reason: 'bad_gateway'}\<close> that does not depend on the body; for every other
  non-2xx status, 404 included, it throws the error that \<open>fromResponse\<close> builds from
  the response and the parsed body, whenever \<open>fromResponse\<close> builds one. That error
  has the status as its code, the message \<open>getMessageForStatus\<close> gives for the status
  and the body, and a context made of the status line and the body. \<open>fromResponse\<close>
  builds an error whenever the body has no \<^verbatim>\<open>message\<close> or \<^verbatim>\<open>String\<close> converts it, which
  it does for every message that is not an object or an array.
\<close>

theorem C3_handleResponse_classification:
  "(ok resp \<longrightarrow> handleResponse P resp = Inr (parseBody resp))
   \<and> (status resp = 401 \<longrightarrow> handleResponse P resp = Inl (Raised invalidCredentials))
   \<and> (status resp = 502 \<longrightarrow> handleResponse P resp = Inl (Raised (badGateway None)))
   \<and> (\<not> ok resp \<and> status resp \<noteq> 401 \<and> status resp \<noteq> 502
        \<and> fromResponse P resp (parseBody resp) = Some e \<longrightarrow>
        handleResponse P resp = Inl (Raised e))
   \<and> (status resp = 404 \<and> fromResponse P resp (parseBody resp) = Some e \<longrightarrow>
        handleResponse P resp = Inl (Raised e))
   \<and> (fromResponse P resp (parseBody resp) = Some e \<longrightarrow>
        errCode e = status resp
        \<and> getMessageForStatus P (status resp) (parseBody resp) = Some (message e)
        \<and> errContext e =
            [(''status'', JNumber (statusNumber (status resp))),
             (''statusText'', JString (statusText resp))]
            @ (if isObjectValue (parseBody resp) then [(''body'', parseBody resp)] else []))
   \<and> ((hasMessage (parseBody resp) \<longrightarrow> ToString P (bodyMessage (parseBody resp)) \<noteq> None)
        \<longrightarrow> fromResponse P resp (parseBody resp) \<noteq> None)
   \<and> ((\<forall>xs. bodyMessage (parseBody resp) \<noteq> JArray xs)
        \<and> (\<forall>kvs. bodyMessage (parseBody resp) \<noteq> JObject kvs)
        \<longrightarrow> fromResponse P resp (parseBody resp) \<noteq> None)
   \<and> errCode invalidCredentials = 401
   \<and> message (badGateway None) = ''Bad Gateway: Failed to reach payment provider''
   \<and> errCode (badGateway None) = 502
   \<and> errContext (badGateway None) = [(''reason'', JString ''bad_gateway'')]"
proof -
  have c200: "ok resp \<longrightarrow> handleResponse P resp = Inr (parseBody resp)"
    by (simp add: handleResponse_cases)
  have c401: "status resp = 401 \<longrightarrow> handleResponse P resp = Inl (Raised invalidCredentials)"
    by (simp add: handleResponse_cases ok_def)
  have c502: "status resp = 502 \<longrightarrow> handleResponse P resp = Inl (Raised (badGateway None))"
    by (simp add: handleResponse_cases ok_def)
  have other: "\<not> ok resp \<and> status resp \<noteq> 401 \<and> status resp \<noteq> 502
        \<and> fromResponse P resp (parseBody resp) = Some e \<longrightarrow>
        handleResponse P resp = Inl (Raised e)"
    by (simp add: handleResponse_cases throwFromResponse_def)
  have c404: "status resp = 404 \<and> fromResponse P resp (parseBody resp) = Some e \<longrightarrow>
        handleResponse P resp = Inl (Raised e)"
    by (simp add: handleResponse_cases throwFromResponse_def ok_def)
  have fields: "fromResponse P resp (parseBody resp) = Some e \<longrightarrow>
        errCode e = status resp
        \<and> getMessageForStatus P (status resp) (parseBody resp) = Some (message e)
        \<and> errContext e =
            [(''status'', JNumber (statusNumber (status resp))),
             (''statusText'', JString (statusText resp))]
            @ (if isObjectValue (parseBody resp) then [(''body'', parseBody resp)] else [])"
    using fromResponse_Some [of P resp "parseBody resp" e] by blast
  have built: "(hasMessage (parseBody resp) \<longrightarrow> ToString P (bodyMessage (parseBody resp)) \<noteq> None)
        \<longrightarrow> fromResponse P resp (parseBody resp) \<noteq> None"
    using fromResponse_defined [of "parseBody resp" P resp] by blast
  have prim: "(\<forall>xs. bodyMessage (parseBody resp) \<noteq> JArray xs)
        \<and> (\<forall>kvs. bodyMessage (parseBody resp) \<noteq> JObject kvs)
        \<longrightarrow> fromResponse P resp (parseBody resp) \<noteq> None"
    using fromResponse_defined [of "parseBody resp" P resp]
      ToString_primitive [of "bodyMessage (parseBody resp)" P] by blast
  have auth: "errCode invalidCredentials = 401"
    by (simp add: invalidCredentials_def AuthenticationError_new_def ShwaryError_new_def)
  from c200 c401 c502 other c404 fields built prim auth badGateway_None
  show ?thesis by blast
qed

text \<open>
  The theorem at a 404 response with a plain-text body and at a 200 response with a
  JSON body.
\<close>

theorem C3_handleResponse_classification_witness:
  "handleResponse samplePlatform
     \<lparr>status = 404, statusText = ''Not Found'', contentType = Some ''text/plain'',
      jsonResult = None, textResult = Some ''no such client''\<rparr>
   = Inl (Raised (ApiError_new ''Not Found: Client or merchant not found'' 404
       [(''status'', JNumber (Finite 404)), (''statusText'', JString ''Not Found'')]
       (Some \<lparr>status = 404, statusText = ''Not Found'', contentType = Some ''text/plain'',
          jsonResult = None, textResult = Some ''no such client''\<rparr>)))
   \<and> handleResponse samplePlatform
     \<lparr>status = 200, statusText = ''OK'', contentType = Some ''application/json; charset=utf-8'',
      jsonResult = Some (JObject [(''id'', JString ''tx-1'')]), textResult = None\<rparr>
   = Inr (JObject [(''id'', JString ''tx-1'')])"
proof -
  let ?nf = "\<lparr>status = 404, statusText = ''Not Found'', contentType = Some ''text/plain'',
      jsonResult = None, textResult = Some ''no such client''\<rparr>"
  let ?okr = "\<lparr>status = 200, statusText = ''OK'',
      contentType = Some ''application/json; charset=utf-8'',
      jsonResult = Some (JObject [(''id'', JString ''tx-1'')]), textResult = None\<rparr>"
  let ?e = "ApiError_new ''Not Found: Client or merchant not found'' 404
       [(''status'', JNumber (Finite 404)), (''statusText'', JString ''Not Found'')]
       (Some ?nf)"
  have b1: "parseBody ?nf = JString ''no such client''"
    by (simp add: parseBody_def)
  have b2: "parseBody ?okr = JObject [(''id'', JString ''tx-1'')]"
    by (simp add: parseBody_def)
  have f1: "status ?nf = 404 \<and> fromResponse samplePlatform ?nf (parseBody ?nf) = Some ?e"
    by (simp add: b1 fromResponse_def getMessageForStatus_def statusNumber_def)
  have s2: "ok ?okr" by (simp add: ok_def)
  from C3_handleResponse_classification [of ?nf samplePlatform ?e] f1
  have "handleResponse samplePlatform ?nf = Inl (Raised ?e)"
    by blast
  moreover from C3_handleResponse_classification [of ?okr samplePlatform] s2 b2
  have "handleResponse samplePlatform ?okr = Inr (JObject [(''id'', JString ''tx-1'')])"
    by simp
  ultimately show ?thesis by simp
qed

text \<open>
  C3 as stated fails: for a 502 response whose JSON body carries a message, the error
  thrown is \<open>badGateway()\<close>, not the error \<open>fromResponse\<close> builds from the status and
  the parsed body; the two differ in their message.
\<close>

theorem C3_bad_gateway_counterexample:
  "handleResponse samplePlatform
     \<lparr>status = 502, statusText = ''Bad Gateway'', contentType = Some ''application/json'',
      jsonResult = Some (JObject [(''message'', JString ''upstream down'')]),
      textResult = None\<rparr>
   = Inl (Raised (badGateway None))
   \<and> parseBody
     \<lparr>status = 502, statusText = ''Bad Gateway'', contentType = Some ''application/json'',
      jsonResult = Some (JObject [(''message'', JString ''upstream down'')]),
      textResult = None\<rparr>
     = JObject [(''message'', JString ''upstream down'')]
   \<and> map_option message (fromResponse samplePlatform
     \<lparr>status = 502, statusText = ''Bad Gateway'', contentType = Some ''application/json'',
      jsonResult = Some (JObject [(''message'', JString ''upstream down'')]),
      textResult = None\<rparr>
     (JObject [(''message'', JString ''upstream down'')])) = Some ''upstream down''
   \<and> message (badGateway None) = ''Bad Gateway: Failed to reach payment provider''
   \<and> Some (badGateway None) \<noteq> fromResponse samplePlatform
     \<lparr>status = 502, statusText = ''Bad Gateway'', contentType = Some ''application/json'',
      jsonResult = Some (JObject [(''message'', JString ''upstream down'')]),
      textResult = None\<rparr>
     (JObject [(''message'', JString ''upstream down'')])"
proof -
  let ?r = "\<lparr>status = 502, statusText = ''Bad Gateway'', contentType = Some ''application/json'',
      jsonResult = Some (JObject [(''message'', JString ''upstream down'')]),
      textResult = None\<rparr>"
  let ?b = "JObject [(''message'', JString ''upstream down'')]"
  have h: "handleResponse samplePlatform ?r = Inl (Raised (badGateway None))"
    by (simp add: handleResponse_cases ok_def)
  have b: "parseBody ?r = ?b"
    by (simp add: parseBody_def)
  have m: "map_option message (fromResponse samplePlatform ?r ?b) = Some ''upstream down''"
    by (simp add: fromResponse_def getMessageForStatus_def getProp_def ApiError_new_def
        ShwaryError_new_def)
  have g: "message (badGateway None) = ''Bad Gateway: Failed to reach payment provider''"
    by (simp add: badGateway_None)
  from m g have ne: "Some (badGateway None) \<noteq> fromResponse samplePlatform ?r ?b"
    by auto
  from h b m g ne show ?thesis by simp
qed

text \<open>
  Outside the statement above: when the body's message is an object with a property
  \<^verbatim>\<open>toString\<close> of its own, \<^verbatim>\<open>String(body.message)\<close> throws, and \<open>handleResponse\<close> throws
  that TypeError instead of an error of the taxonomy.
\<close>

lemma handleResponse_TypeError:
  "handleResponse P
     \<lparr>status = 500, statusText = ''Internal Server Error'',
      contentType = Some ''application/json'',
      jsonResult =
        Some (JObject [(''message'', JObject [(''toString'', JNumber (Finite 1))])]),
      textResult = None\<rparr>
   = Inl TypeError"
  by (simp add: handleResponse_cases ok_def throwFromResponse_def fromResponse_def
      getMessageForStatus_def parseBody_def getProp_def)

subsection \<open>Conversions\<close>

text \<open>
  \<^verbatim>\<open>String\<close>, \<^verbatim>\<open>Number\<close> and \<^verbatim>\<open>new Date\<close> throw on the same values: those that
  ToPrimitive cannot convert.
\<close>

lemma ToString_None_iff: "ToString P v = None \<longleftrightarrow> ToPrimitive P v = None"
  by (cases v) simp_all

lemma ToNumber_None_iff: "ToNumber P v = None \<longleftrightarrow> ToPrimitive P v = None"
  by (cases v) simp_all

lemma Date_new_None_iff: "Date_new P v = None \<longleftrightarrow> ToPrimitive P v = None"
  by (simp add: Date_new_def)

lemma ToPrimitive_primitive:
  "(\<forall>xs. v \<noteq> JArray xs) \<Longrightarrow> (\<forall>kvs. v \<noteq> JObject kvs) \<Longrightarrow> ToPrimitive P v = Some v"
  by (cases v) simp_all

lemma ToString_coalesce:
  assumes "ToPrimitive P v \<noteq> None"
  obtains s where "ToString P (coalesce v (JString d)) = Some s"
proof (cases "nullish v")
  case True
  then show ?thesis using that [of d] by (simp add: coalesce_def)
next
  case False
  from assms obtain s where "ToString P v = Some s"
    by (cases "ToString P v") (simp_all add: ToString_None_iff)
  with False show ?thesis using that [of s] by (simp add: coalesce_def)
qed

lemma ToNumber_coalesce:
  assumes "ToPrimitive P v \<noteq> None"
  obtains n where "ToNumber P (coalesce v (JNumber d)) = Some n"
proof (cases "nullish v")
  case True
  then show ?thesis using that [of d] by (simp add: coalesce_def)
next
  case False
  from assms obtain n where "ToNumber P v = Some n"
    by (cases "ToNumber P v") (simp_all add: ToNumber_None_iff)
  with False show ?thesis using that [of n] by (simp add: coalesce_def)
qed

subsection \<open>Transaction.fromApiResponse: the status\<close>

lemma Transaction_new_Some:
  assumes "td_completedAt d = co"
    and "(if ToBoolean co then map_option Some (Date_new P co) else Some None) = Some c"
  shows "Transaction_new P d =
     Some \<lparr>tx_id = td_id d,
           tx_userId = td_userId d,
           tx_amount = td_amount d,
           tx_currency = td_currency d,
           tx_type = td_type d,
           tx_status = td_status d,
           tx_recipientPhoneNumber = td_recipientPhoneNumber d,
           tx_referenceId = td_referenceId d,
           tx_metadata = coalesce (td_metadata d) JNull,
           tx_failureReason = coalesce (td_failureReason d) JNull,
           tx_completedAt = c,
           tx_createdAt = Date_construct P (JString (td_createdAt d)),
           tx_updatedAt = Date_construct P (JString (td_updatedAt d)),
           tx_isSandbox = td_isSandbox d,
           tx_pretiumTransactionId = coalesce (td_pretiumTransactionId d) JNull,
           tx_error = coalesce (td_error d) JNull\<rparr>"
  using assms by (cases "ToBoolean co") (auto simp: Transaction_new_def)

lemma Transaction_new_status:
  "Transaction_new P d = Some tx \<Longrightarrow> tx_status tx = td_status d"
  by (auto simp: Transaction_new_def split: option.splits)

lemma Transaction_new_total:
  assumes "ToPrimitive P (td_completedAt d) \<noteq> None"
  shows "Transaction_new P d \<noteq> None"
proof -
  from assms obtain dt where "Date_new P (td_completedAt d) = Some dt"
    by (cases "Date_new P (td_completedAt d)") (auto simp: Date_new_None_iff)
  then have "(if ToBoolean (td_completedAt d)
              then map_option Some (Date_new P (td_completedAt d)) else Some None)
             = Some (if ToBoolean (td_completedAt d) then Some dt else None)"
    by simp
  from Transaction_new_Some [OF refl this] show ?thesis by simp
qed

lemma tx_status_fromApiResponse:
  assumes "Transaction_fromApiResponse P n1 n2 data = Some tx"
  shows "tx_status tx = coalesce (getProp data ''status'') TransactionStatus_PENDING"
proof -
  from assms obtain d where "Transaction_new P d = Some tx"
    and "td_status d = coalesce (getProp data ''status'') TransactionStatus_PENDING"
    by (auto simp: Transaction_fromApiResponse_def split: bind_splits)
  then show ?thesis by (simp add: Transaction_new_status)
qed

lemma fromApiResponse_total:
  assumes "list_all (\<lambda>k. ToPrimitive P (getProp data k) \<noteq> None)
             [''id'', ''userId'', ''amount'', ''currency'', ''type'', ''recipientPhoneNumber'',
              ''referenceId'', ''createdAt'', ''updatedAt'', ''completedAt'']"
  shows "Transaction_fromApiResponse P n1 n2 data \<noteq> None"
proof -
  from assms have p:
    "ToPrimitive P (getProp data ''id'') \<noteq> None"
    "ToPrimitive P (getProp data ''userId'') \<noteq> None"
    "ToPrimitive P (getProp data ''amount'') \<noteq> None"
    "ToPrimitive P (getProp data ''currency'') \<noteq> None"
    "ToPrimitive P (getProp data ''type'') \<noteq> None"
    "ToPrimitive P (getProp data ''recipientPhoneNumber'') \<noteq> None"
    "ToPrimitive P (getProp data ''referenceId'') \<noteq> None"
    "ToPrimitive P (getProp data ''createdAt'') \<noteq> None"
    "ToPrimitive P (getProp data ''updatedAt'') \<noteq> None"
    "ToPrimitive P (getProp data ''completedAt'') \<noteq> None"
    by simp_all
  obtain v1 where v1: "ToString P (coalesce (getProp data ''id'') (JString [])) = Some v1"
    using p(1) by (rule ToString_coalesce)
  obtain v2 where v2: "ToString P (coalesce (getProp data ''userId'') (JString [])) = Some v2"
    using p(2) by (rule ToString_coalesce)
  obtain v3 where v3:
    "ToNumber P (coalesce (getProp data ''amount'') (JNumber (Finite 0))) = Some v3"
    using p(3) by (rule ToNumber_coalesce)
  obtain v4 where v4: "ToString P (coalesce (getProp data ''currency'') (JString [])) = Some v4"
    using p(4) by (rule ToString_coalesce)
  obtain v5 where v5:
    "ToString P (coalesce (getProp data ''type'') (JString ''deposit'')) = Some v5"
    using p(5) by (rule ToString_coalesce)
  obtain v6 where v6:
    "ToString P (coalesce (getProp data ''recipientPhoneNumber'') (JString [])) = Some v6"
    using p(6) by (rule ToString_coalesce)
  obtain v7 where v7:
    "ToString P (coalesce (getProp data ''referenceId'') (JString [])) = Some v7"
    using p(7) by (rule ToString_coalesce)
  obtain v8 where v8:
    "ToString P (coalesce (getProp data ''createdAt'')
       (JString (Date_toISOString P n1))) = Some v8"
    using p(8) by (rule ToString_coalesce)
  obtain v9 where v9:
    "ToString P (coalesce (getProp data ''updatedAt'')
       (JString (Date_toISOString P n2))) = Some v9"
    using p(9) by (rule ToString_coalesce)
  have "ToPrimitive P (coalesce (getProp data ''completedAt'') JNull) \<noteq> None"
    using p(10) by (simp add: coalesce_def)
  then show ?thesis
    by (simp add: Transaction_fromApiResponse_def v1 v2 v3 v4 v5 v6 v7 v8 v9
        Transaction_new_total)
qed

text \<open>
  C4 (as amended). The status of the transaction that \<open>fromApiResponse\<close> produces is
  the raw \<^verbatim>\<open>status\<close> value, unchanged and unchecked, unless that value is undefined or
  null, in which case it is pending. So a raw object with no status field gives
  pending, and the status is one of pending, completed, failed whenever the raw status
  is absent, null or one of these three. A transaction is produced whenever the ten
  fields that \<open>fromApiResponse\<close> converts can be converted to a primitive, which holds
  for every field that is absent or is not an object or an array.
\<close>

theorem C4_fromApiResponse_status:
  "(Transaction_fromApiResponse P n1 n2 data = Some tx \<longrightarrow>
      tx_status tx =
        (if getProp data ''status'' = JUndefined \<or> getProp data ''status'' = JNull
         then TransactionStatus_PENDING else getProp data ''status''))
   \<and> (Transaction_fromApiResponse P n1 n2 data = Some tx \<and> map_of data ''status'' = None \<longrightarrow>
        tx_status tx = TransactionStatus_PENDING)
   \<and> (Transaction_fromApiResponse P n1 n2 data = Some tx
        \<and> getProp data ''status''
             \<in> {JUndefined, JNull, TransactionStatus_PENDING, TransactionStatus_COMPLETED,
                 TransactionStatus_FAILED} \<longrightarrow>
        tx_status tx
          \<in> {TransactionStatus_PENDING, TransactionStatus_COMPLETED, TransactionStatus_FAILED})
   \<and> (list_all (\<lambda>k. ToPrimitive P (getProp data k) \<noteq> None)
         [''id'', ''userId'', ''amount'', ''currency'', ''type'', ''recipientPhoneNumber'',
          ''referenceId'', ''createdAt'', ''updatedAt'', ''completedAt''] \<longrightarrow>
        Transaction_fromApiResponse P n1 n2 data \<noteq> None)
   \<and> (list_all (\<lambda>k. (\<forall>xs. getProp data k \<noteq> JArray xs) \<and> (\<forall>kvs. getProp data k \<noteq> JObject kvs))
         [''id'', ''userId'', ''amount'', ''currency'', ''type'', ''recipientPhoneNumber'',
          ''referenceId'', ''createdAt'', ''updatedAt'', ''completedAt''] \<longrightarrow>
        Transaction_fromApiResponse P n1 n2 data \<noteq> None)"
proof -
  have eq: "tx_status tx =
        (if getProp data ''status'' = JUndefined \<or> getProp data ''status'' = JNull
         then TransactionStatus_PENDING else getProp data ''status'')"
    if "Transaction_fromApiResponse P n1 n2 data = Some tx"
    using tx_status_fromApiResponse [OF that] by (simp add: coalesce_def nullish_def)
  have missing: "tx_status tx = TransactionStatus_PENDING"
    if "Transaction_fromApiResponse P n1 n2 data = Some tx" "map_of data ''status'' = None"
    using eq [OF that(1)] that(2) by (simp add: getProp_def)
  have known: "tx_status tx
          \<in> {TransactionStatus_PENDING, TransactionStatus_COMPLETED, TransactionStatus_FAILED}"
    if "Transaction_fromApiResponse P n1 n2 data = Some tx"
      "getProp data ''status''
             \<in> {JUndefined, JNull, TransactionStatus_PENDING, TransactionStatus_COMPLETED,
                 TransactionStatus_FAILED}"
    using eq [OF that(1)] that(2) by auto
  have total: "Transaction_fromApiResponse P n1 n2 data \<noteq> None"
    if "list_all (\<lambda>k. ToPrimitive P (getProp data k) \<noteq> None)
         [''id'', ''userId'', ''amount'', ''currency'', ''type'', ''recipientPhoneNumber'',
          ''referenceId'', ''createdAt'', ''updatedAt'', ''completedAt'']"
    using that by (rule fromApiResponse_total)
  have prim: "Transaction_fromApiResponse P n1 n2 data \<noteq> None"
    if "list_all (\<lambda>k. (\<forall>xs. getProp data k \<noteq> JArray xs) \<and> (\<forall>kvs. getProp data k \<noteq> JObject kvs))
         [''id'', ''userId'', ''amount'', ''currency'', ''type'', ''recipientPhoneNumber'',
          ''referenceId'', ''createdAt'', ''updatedAt'', ''completedAt'']"
    using that by (intro fromApiResponse_total) (simp add: ToPrimitive_primitive)
  from eq missing known total prim show ?thesis by blast
qed

text \<open>
  The theorem at a raw object without a status, and at one whose status is completed:
  each produces a transaction.
\<close>

theorem C4_fromApiResponse_status_witness:
  "(\<exists>tx. Transaction_fromApiResponse samplePlatform 0 0 [(''id'', JString ''tx-1'')] = Some tx
         \<and> tx_status tx = TransactionStatus_PENDING)
   \<and> (\<exists>tx. Transaction_fromApiResponse samplePlatform 0 0
               [(''id'', JString ''tx-1''), (''status'', JString ''completed'')] = Some tx
         \<and> tx_status tx
             \<in> {TransactionStatus_PENDING, TransactionStatus_COMPLETED, TransactionStatus_FAILED})"
proof -
  let ?d1 = "[(''id'', JString ''tx-1'')]"
  let ?d2 = "[(''id'', JString ''tx-1''), (''status'', JString ''completed'')]"
  let ?keys = "[''id'', ''userId'', ''amount'', ''currency'', ''type'', ''recipientPhoneNumber'',
          ''referenceId'', ''createdAt'', ''updatedAt'', ''completedAt'']"
  have p1: "list_all (\<lambda>k. ToPrimitive samplePlatform (getProp ?d1 k) \<noteq> None) ?keys"
    by (simp add: getProp_def)
  have p2: "list_all (\<lambda>k. ToPrimitive samplePlatform (getProp ?d2 k) \<noteq> None) ?keys"
    by (simp add: getProp_def)
  have a: "map_of ?d1 ''status'' = None"
    by simp
  have b: "getProp ?d2 ''status''
          \<in> {JUndefined, JNull, TransactionStatus_PENDING, TransactionStatus_COMPLETED,
              TransactionStatus_FAILED}"
    by (simp add: getProp_def TransactionStatus_COMPLETED_def)
  from p1 C4_fromApiResponse_status [of samplePlatform 0 0 ?d1]
  obtain t1 where t1: "Transaction_fromApiResponse samplePlatform 0 0 ?d1 = Some t1"
    by blast
  from p2 C4_fromApiResponse_status [of samplePlatform 0 0 ?d2]
  obtain t2 where t2: "Transaction_fromApiResponse samplePlatform 0 0 ?d2 = Some t2"
    by blast
  from t1 a C4_fromApiResponse_status [of samplePlatform 0 0 ?d1 t1]
  have s1: "tx_status t1 = TransactionStatus_PENDING" by blast
  from t2 b C4_fromApiResponse_status [of samplePlatform 0 0 ?d2 t2]
  have s2: "tx_status t2
      \<in> {TransactionStatus_PENDING, TransactionStatus_COMPLETED, TransactionStatus_FAILED}"
    by blast
  from t1 s1 t2 s2 show ?thesis by blast
qed

text \<open>
  C4 as stated fails: the raw status \<^verbatim>\<open>'refunded'\<close> is kept as the status of the
  transaction produced, and it is none of pending, completed, failed.
\<close>

theorem C4_unknown_status_counterexample:
  "map_option tx_status
     (Transaction_fromApiResponse samplePlatform 0 0 [(''status'', JString ''refunded'')])
     = Some (JString ''refunded'')
   \<and> JString ''refunded''
       \<notin> {TransactionStatus_PENDING, TransactionStatus_COMPLETED, TransactionStatus_FAILED}"
proof -
  let ?d = "[(''status'', JString ''refunded'')]"
  have "list_all (\<lambda>k. ToPrimitive samplePlatform (getProp ?d k) \<noteq> None)
          [''id'', ''userId'', ''amount'', ''currency'', ''type'', ''recipientPhoneNumber'',
           ''referenceId'', ''createdAt'', ''updatedAt'', ''completedAt'']"
    by (simp add: getProp_def)
  then obtain tx where tx: "Transaction_fromApiResponse samplePlatform 0 0 ?d = Some tx"
    using fromApiResponse_total [of samplePlatform ?d 0 0] by blast
  from tx_status_fromApiResponse [OF tx] have "tx_status tx = JString ''refunded''"
    by (simp add: coalesce_def nullish_def getProp_def)
  with tx show ?thesis
    by (simp add: TransactionStatus_PENDING_def TransactionStatus_COMPLETED_def
        TransactionStatus_FAILED_def)
qed

subsection \<open>Config.fromEnvironment\<close>

lemma scheme_default_url:
  "scheme_start_state (url_preprocess DEFAULT_BASE_URL) = Some (''https'', ''//api.shwary.com'')"
  by (simp add: DEFAULT_BASE_URL_def url_preprocess_def scheme_start_state_def
      isAsciiAlpha_def isAsciiDigit_def asciiLower_def isC0ControlOrSpace_def isTabOrNewline_def)

lemma removeTrailingSlash_default: "removeTrailingSlash DEFAULT_BASE_URL = DEFAULT_BASE_URL"
  by (simp add: removeTrailingSlash_def DEFAULT_BASE_URL_def)

lemma Config_new_sandbox:
  "Config_new P options = Inr cfg \<Longrightarrow>
     sandbox cfg = (case opt_sandbox options of None \<Rightarrow> False | Some b \<Rightarrow> b)"
  by (auto simp: Config_new_def Let_def split: sum.splits)

lemma Config_new_defaults:
  assumes "i \<noteq> []" "k \<noteq> []" "URL_rest_ok P ''https'' ''//api.shwary.com''"
  shows "Config_new P
           \<lparr>opt_merchantId = i, opt_merchantKey = k, opt_baseUrl = Some DEFAULT_BASE_URL,
            opt_timeout = Some DEFAULT_TIMEOUT, opt_sandbox = Some b\<rparr>
         = Inr \<lparr>merchantId = i, merchantKey = k, baseUrl = DEFAULT_BASE_URL,
                timeout = Finite 30000, sandbox = b\<rparr>"
proof -
  let ?cfg = "\<lparr>merchantId = i, merchantKey = k, baseUrl = DEFAULT_BASE_URL,
                timeout = Finite 30000, sandbox = b\<rparr>"
  have "URL_new P DEFAULT_BASE_URL = Some ''https''"
    using assms(3) by (simp add: URL_new_def scheme_default_url)
  then have "Config_validate P ?cfg = Inr ()"
    using assms(1,2) by (simp add: Config_validate_def truthy_string_def)
  then show ?thesis
    by (simp add: Config_new_def Let_def removeTrailingSlash_default DEFAULT_TIMEOUT_def)
qed

lemma orDefault_nonempty: "v \<noteq> [] \<Longrightarrow> orDefault (Some v) d = v"
  by (simp add: orDefault_def truthy_string_def)

lemma orDefault_None: "orDefault None d = d"
  by (simp add: orDefault_def)

text \<open>
  C9. From an environment that sets only \<^verbatim>\<open>SHWARY_MERCHANT_ID\<close> and
  \<^verbatim>\<open>SHWARY_MERCHANT_KEY\<close> (to non-empty values, as the constructor requires),
  \<open>fromEnvironment\<close> yields the Config with these credentials, the default base URL,
  timeout 30000 and sandbox false; adding \<^verbatim>\<open>SHWARY_SANDBOX\<close> changes only the sandbox
  flag, which is true exactly for the values \<^verbatim>\<open>true\<close>, \<^verbatim>\<open>1\<close>, \<^verbatim>\<open>yes\<close>. And for every
  environment from which a Config is built, its sandbox flag is true exactly when
  \<^verbatim>\<open>SHWARY_SANDBOX\<close> is set to one of these three values. The platform's URL parser
  is assumed to accept the host of the default base URL.
\<close>

theorem C9_Config_fromEnvironment:
  "(i \<noteq> [] \<and> k \<noteq> [] \<and> URL_rest_ok P ''https'' ''//api.shwary.com'' \<longrightarrow>
      Config_fromEnvironment P [''SHWARY_MERCHANT_ID'' \<mapsto> i, ''SHWARY_MERCHANT_KEY'' \<mapsto> k]
        = Inr \<lparr>merchantId = i, merchantKey = k, baseUrl = DEFAULT_BASE_URL,
               timeout = Finite 30000, sandbox = False\<rparr>)
   \<and> (i \<noteq> [] \<and> k \<noteq> [] \<and> URL_rest_ok P ''https'' ''//api.shwary.com'' \<longrightarrow>
      Config_fromEnvironment P
          [''SHWARY_MERCHANT_ID'' \<mapsto> i, ''SHWARY_MERCHANT_KEY'' \<mapsto> k, ''SHWARY_SANDBOX'' \<mapsto> v]
        = Inr \<lparr>merchantId = i, merchantKey = k, baseUrl = DEFAULT_BASE_URL,
               timeout = Finite 30000,
               sandbox = (v = ''true'' \<or> v = ''1'' \<or> v = ''yes'')\<rparr>)
   \<and> (Config_fromEnvironment P env = Inr cfg \<longrightarrow>
      sandbox cfg =
        (env ''SHWARY_SANDBOX'' = Some ''true'' \<or> env ''SHWARY_SANDBOX'' = Some ''1''
         \<or> env ''SHWARY_SANDBOX'' = Some ''yes''))"
proof (intro conjI impI)
  assume a: "i \<noteq> [] \<and> k \<noteq> [] \<and> URL_rest_ok P ''https'' ''//api.shwary.com''"
  then show "Config_fromEnvironment P [''SHWARY_MERCHANT_ID'' \<mapsto> i, ''SHWARY_MERCHANT_KEY'' \<mapsto> k]
        = Inr \<lparr>merchantId = i, merchantKey = k, baseUrl = DEFAULT_BASE_URL,
               timeout = Finite 30000, sandbox = False\<rparr>"
    by (simp add: Config_fromEnvironment_def orDefault_nonempty orDefault_None Config_new_defaults)
  from a show "Config_fromEnvironment P
          [''SHWARY_MERCHANT_ID'' \<mapsto> i, ''SHWARY_MERCHANT_KEY'' \<mapsto> k, ''SHWARY_SANDBOX'' \<mapsto> v]
        = Inr \<lparr>merchantId = i, merchantKey = k, baseUrl = DEFAULT_BASE_URL,
               timeout = Finite 30000,
               sandbox = (v = ''true'' \<or> v = ''1'' \<or> v = ''yes'')\<rparr>"
    by (simp add: Config_fromEnvironment_def orDefault_nonempty orDefault_None Config_new_defaults)
next
  assume "Config_fromEnvironment P env = Inr cfg"
  then show "sandbox cfg =
        (env ''SHWARY_SANDBOX'' = Some ''true'' \<or> env ''SHWARY_SANDBOX'' = Some ''1''
         \<or> env ''SHWARY_SANDBOX'' = Some ''yes'')"
    by (simp add: Config_fromEnvironment_def Config_new_sandbox)
qed

lemma sample_rest_default: "URL_rest_ok samplePlatform ''https'' ''//api.shwary.com''"
  by (simp add: samplePlatform_def sample_URL_rest_ok_def isAsciiAlpha_def isAsciiDigit_def)

text \<open>
  The theorem at the credentials \<^verbatim>\<open>x\<close> and \<^verbatim>\<open>y\<close>, without \<^verbatim>\<open>SHWARY_SANDBOX\<close> and with
  the values \<^verbatim>\<open>yes\<close> and \<^verbatim>\<open>TRUE\<close>.
\<close>

theorem C9_Config_fromEnvironment_witness:
  "Config_fromEnvironment samplePlatform
      [''SHWARY_MERCHANT_ID'' \<mapsto> ''x'', ''SHWARY_MERCHANT_KEY'' \<mapsto> ''y'']
    = Inr \<lparr>merchantId = ''x'', merchantKey = ''y'', baseUrl = ''https://api.shwary.com'',
           timeout = Finite 30000, sandbox = False\<rparr>
   \<and> Config_fromEnvironment samplePlatform
      [''SHWARY_MERCHANT_ID'' \<mapsto> ''x'', ''SHWARY_MERCHANT_KEY'' \<mapsto> ''y'',
       ''SHWARY_SANDBOX'' \<mapsto> ''yes'']
    = Inr \<lparr>merchantId = ''x'', merchantKey = ''y'', baseUrl = ''https://api.shwary.com'',
           timeout = Finite 30000, sandbox = True\<rparr>
   \<and> Config_fromEnvironment samplePlatform
      [''SHWARY_MERCHANT_ID'' \<mapsto> ''x'', ''SHWARY_MERCHANT_KEY'' \<mapsto> ''y'',
       ''SHWARY_SANDBOX'' \<mapsto> ''TRUE'']
    = Inr \<lparr>merchantId = ''x'', merchantKey = ''y'', baseUrl = ''https://api.shwary.com'',
           timeout = Finite 30000, sandbox = False\<rparr>"
proof -
  have pre: "''x'' \<noteq> [] \<and> ''y'' \<noteq> [] \<and> URL_rest_ok samplePlatform ''https'' ''//api.shwary.com''"
    by (simp add: sample_rest_default)
  from pre
    C9_Config_fromEnvironment [of "''x''" "''y''" samplePlatform "''yes''"]
    C9_Config_fromEnvironment [of "''x''" "''y''" samplePlatform "''TRUE''"]
  show ?thesis by (simp add: DEFAULT_BASE_URL_def)
qed


subsection \<open>Transaction: toJSON and fromApiResponse\<close>

text \<open>
  The constructor leaves no nullable field undefined, and \<open>fromApiResponse\<close> always
  sets a status.
\<close>

lemma Transaction_new_defined:
  assumes "Transaction_new P d = Some tx"
  shows "tx_metadata tx \<noteq> JUndefined
   \<and> tx_failureReason tx \<noteq> JUndefined
   \<and> tx_pretiumTransactionId tx \<noteq> JUndefined
   \<and> tx_error tx \<noteq> JUndefined"
  using assms
  by (auto simp: Transaction_new_def coalesce_def nullish_def split: option.splits if_splits)

lemma fromApiResponse_status_set:
  assumes "Transaction_fromApiResponse P n1 n2 data = Some tx"
  shows "\<not> nullish (tx_status tx)"
  using tx_status_fromApiResponse [OF assms]
  by (simp add: coalesce_def nullish_def TransactionStatus_PENDING_def)

lemma parsesBack_iso:
  assumes "parsesBack P d"
  obtains t where "d = TimeValue t" "toISOString P d = Some (Date_toISOString P t)"
    "Date_toISOString P t \<noteq> []"
    "Date_construct P (JString (Date_toISOString P t)) = d"
  using assms by (cases d) (simp_all add: parsesBack_def)

lemma fromApiResponse_of_json:
  assumes st: "\<not> nullish st"
    and md: "md \<noteq> JUndefined" and fr: "fr \<noteq> JUndefined"
    and pt: "pt \<noteq> JUndefined" and er: "er \<noteq> JUndefined"
    and co: "co \<noteq> JUndefined"
  shows "Transaction_fromApiResponse P n1 n2
           [(''id'', JString i), (''userId'', JString u), (''amount'', JNumber a),
            (''currency'', JString cu), (''type'', JString ty), (''status'', st),
            (''recipientPhoneNumber'', JString rp), (''referenceId'', JString rf),
            (''metadata'', md), (''failureReason'', fr), (''completedAt'', co),
            (''createdAt'', JString cr), (''updatedAt'', JString up), (''isSandbox'', JBool sb),
            (''pretiumTransactionId'', pt), (''error'', er)]
         = Transaction_new P
            \<lparr>td_id = i, td_userId = u, td_amount = a, td_currency = cu, td_type = ty,
             td_status = st, td_recipientPhoneNumber = rp, td_referenceId = rf,
             td_metadata = md, td_failureReason = fr, td_completedAt = co,
             td_createdAt = cr, td_updatedAt = up, td_isSandbox = sb,
             td_pretiumTransactionId = pt, td_error = er\<rparr>"
  using assms
  by (simp add: Transaction_fromApiResponse_def getProp_def coalesce_def nullish_def)

text \<open>
  C5. Let \<open>tx\<close> be a transaction whose timestamps are valid dates that the platform
  parses back from their ISO form, whose status is set, and whose nullable fields are
  values or null (as the constructor leaves them; in particular every fully populated
  transaction). Then \<open>toJSON\<close> returns an object, and \<open>fromApiResponse\<close> applied to
  that object does not throw and yields a transaction equal to \<open>tx\<close> in every field,
  whatever the clock shows.
\<close>

theorem C5_toJSON_fromApiResponse_roundtrip:
  assumes created: "parsesBack P (tx_createdAt tx)"
    and updated: "parsesBack P (tx_updatedAt tx)"
    and completed: "\<forall>d. tx_completedAt tx = Some d \<longrightarrow> parsesBack P d"
    and status: "\<not> nullish (tx_status tx)"
    and defined: "tx_metadata tx \<noteq> JUndefined" "tx_failureReason tx \<noteq> JUndefined"
      "tx_pretiumTransactionId tx \<noteq> JUndefined" "tx_error tx \<noteq> JUndefined"
  shows "\<exists>j. Transaction_toJSON P tx = Some j
             \<and> Transaction_fromApiResponse P n1 n2 j = Some tx"
proof -
  from created obtain tc where
    c: "toISOString P (tx_createdAt tx) = Some (Date_toISOString P tc)"
    and c': "Date_construct P (JString (Date_toISOString P tc)) = tx_createdAt tx"
    by (rule parsesBack_iso)
  from updated obtain tu where
    u: "toISOString P (tx_updatedAt tx) = Some (Date_toISOString P tu)"
    and u': "Date_construct P (JString (Date_toISOString P tu)) = tx_updatedAt tx"
    by (rule parsesBack_iso)
  obtain co where co1: "(case tx_completedAt tx of
              None \<Rightarrow> Some JNull
            | Some d \<Rightarrow> map_option JString (toISOString P d)) = Some co"
    and co2: "co \<noteq> JUndefined"
    and co3: "(if ToBoolean co then map_option Some (Date_new P co) else Some None)
                = Some (tx_completedAt tx)"
  proof (cases "tx_completedAt tx")
    case None
    then show ?thesis using that [of JNull] by simp
  next
    case (Some d)
    with completed have "parsesBack P d" by simp
    then obtain t where "d = TimeValue t" "Date_toISOString P t \<noteq> []"
      "Date_construct P (JString (Date_toISOString P t)) = d"
      by (rule parsesBack_iso)
    with Some show ?thesis
      using that [of "JString (Date_toISOString P t)"]
      by (simp add: truthy_string_def Date_new_def)
  qed
  let ?j = "[(''id'', JString (tx_id tx)),
             (''userId'', JString (tx_userId tx)),
             (''amount'', JNumber (tx_amount tx)),
             (''currency'', JString (tx_currency tx)),
             (''type'', JString (tx_type tx)),
             (''status'', tx_status tx),
             (''recipientPhoneNumber'', JString (tx_recipientPhoneNumber tx)),
             (''referenceId'', JString (tx_referenceId tx)),
             (''metadata'', tx_metadata tx),
             (''failureReason'', tx_failureReason tx),
             (''completedAt'', co),
             (''createdAt'', JString (Date_toISOString P tc)),
             (''updatedAt'', JString (Date_toISOString P tu)),
             (''isSandbox'', JBool (tx_isSandbox tx)),
             (''pretiumTransactionId'', tx_pretiumTransactionId tx),
             (''error'', tx_error tx)]"
  let ?d = "\<lparr>td_id = tx_id tx, td_userId = tx_userId tx, td_amount = tx_amount tx,
             td_currency = tx_currency tx, td_type = tx_type tx,
             td_status = tx_status tx,
             td_recipientPhoneNumber = tx_recipientPhoneNumber tx,
             td_referenceId = tx_referenceId tx,
             td_metadata = tx_metadata tx, td_failureReason = tx_failureReason tx,
             td_completedAt = co,
             td_createdAt = Date_toISOString P tc, td_updatedAt = Date_toISOString P tu,
             td_isSandbox = tx_isSandbox tx,
             td_pretiumTransactionId = tx_pretiumTransactionId tx,
             td_error = tx_error tx\<rparr>"
  have json: "Transaction_toJSON P tx = Some ?j"
    by (simp add: Transaction_toJSON_def co1 c u)
  have conv: "Transaction_fromApiResponse P n1 n2 ?j = Transaction_new P ?d"
    by (rule fromApiResponse_of_json [OF status defined co2])
  have sel: "td_completedAt ?d = co"
    by simp
  have "Transaction_new P ?d = Some tx"
    unfolding Transaction_new_Some [OF sel co3]
    by (simp add: coalesce_def nullish_def defined c' u')
  with conv have "Transaction_fromApiResponse P n1 n2 ?j = Some tx"
    by simp
  with json show ?thesis by blast
qed

lemma sample_parsesBack:
  "parsesBack samplePlatform (TimeValue 1700000000000)"
  "parsesBack samplePlatform (TimeValue 1700000030500)"
  "parsesBack samplePlatform (TimeValue 1700000060000)"
  by code_simp+

lemma sample_iso: "Date_toISOString samplePlatform 1700000030500 = ''2023-11-14T22:13:50.500Z''"
  by code_simp

text \<open>
  The theorem at a fully populated transaction, on the example platform.
\<close>

theorem C5_toJSON_fromApiResponse_roundtrip_witness:
  "\<exists>j. Transaction_toJSON samplePlatform
          \<lparr>tx_id = ''tx-1'', tx_userId = ''user-1'', tx_amount = Finite 5000,
           tx_currency = ''CDF'', tx_type = ''deposit'',
           tx_status = TransactionStatus_COMPLETED,
           tx_recipientPhoneNumber = ''+243812345678'', tx_referenceId = ''ref-1'',
           tx_metadata = JObject [(''order'', JString ''42'')],
           tx_failureReason = JString ''none'',
           tx_completedAt = Some (TimeValue 1700000060000),
           tx_createdAt = TimeValue 1700000000000,
           tx_updatedAt = TimeValue 1700000030500,
           tx_isSandbox = True, tx_pretiumTransactionId = JString ''pt-1'',
           tx_error = JString ''none''\<rparr> = Some j
      \<and> getProp j ''updatedAt'' = JString ''2023-11-14T22:13:50.500Z''
      \<and> Transaction_fromApiResponse samplePlatform 0 0 j =
          Some \<lparr>tx_id = ''tx-1'', tx_userId = ''user-1'', tx_amount = Finite 5000,
           tx_currency = ''CDF'', tx_type = ''deposit'',
           tx_status = TransactionStatus_COMPLETED,
           tx_recipientPhoneNumber = ''+243812345678'', tx_referenceId = ''ref-1'',
           tx_metadata = JObject [(''order'', JString ''42'')],
           tx_failureReason = JString ''none'',
           tx_completedAt = Some (TimeValue 1700000060000),
           tx_createdAt = TimeValue 1700000000000,
           tx_updatedAt = TimeValue 1700000030500,
           tx_isSandbox = True, tx_pretiumTransactionId = JString ''pt-1'',
           tx_error = JString ''none''\<rparr>"
proof -
  let ?tx = "\<lparr>tx_id = ''tx-1'', tx_userId = ''user-1'', tx_amount = Finite 5000,
           tx_currency = ''CDF'', tx_type = ''deposit'',
           tx_status = TransactionStatus_COMPLETED,
           tx_recipientPhoneNumber = ''+243812345678'', tx_referenceId = ''ref-1'',
           tx_metadata = JObject [(''order'', JString ''42'')],
           tx_failureReason = JString ''none'',
           tx_completedAt = Some (TimeValue 1700000060000),
           tx_createdAt = TimeValue 1700000000000,
           tx_updatedAt = TimeValue 1700000030500,
           tx_isSandbox = True, tx_pretiumTransactionId = JString ''pt-1'',
           tx_error = JString ''none''\<rparr>"
  have created: "parsesBack samplePlatform (tx_createdAt ?tx)"
    and updated: "parsesBack samplePlatform (tx_updatedAt ?tx)"
    and completed: "\<forall>d. tx_completedAt ?tx = Some d \<longrightarrow> parsesBack samplePlatform d"
    by (simp_all add: sample_parsesBack)
  have status: "\<not> nullish (tx_status ?tx)"
    by (simp add: nullish_def TransactionStatus_COMPLETED_def)
  have defined: "tx_metadata ?tx \<noteq> JUndefined" "tx_failureReason ?tx \<noteq> JUndefined"
      "tx_pretiumTransactionId ?tx \<noteq> JUndefined" "tx_error ?tx \<noteq> JUndefined"
    by simp_all
  from C5_toJSON_fromApiResponse_roundtrip
         [OF created updated completed status defined, of 0 0]
  obtain j where j: "Transaction_toJSON samplePlatform ?tx = Some j"
    and rt: "Transaction_fromApiResponse samplePlatform 0 0 j = Some ?tx"
    by blast
  from j have "getProp j ''updatedAt'' = JString ''2023-11-14T22:13:50.500Z''"
    by (auto simp: Transaction_toJSON_def getProp_def sample_iso split: option.splits)
  with j rt show ?thesis by blast
qed

end
